theory Spec2Isabelle
  imports Complex_Main "HOL-Library.Char_ord" "HOL-Library.List_Lexorder"
begin

section \<open>Python values and conversions used by the request handlers\<close>

text \<open>
  The handlers of \<^verbatim>\<open>src/app.py\<close> read untyped request values and pass them through
  Python's \<^verbatim>\<open>int()\<close>. Exceptions are values of \<open>py_error\<close>; a computation that may
  raise returns \<open>py_error + 'a\<close>.
\<close>

datatype py_error =
    ValueError
  | TypeError
  | IndexError
  | ZeroDivisionError
  | OverflowError
  | EngineError string

text \<open>
  A JSON value as \<^verbatim>\<open>request.get_json()\<close> delivers it. \<open>JReal\<close> is a finite float, \<open>JInf\<close>
  and \<open>JNaN\<close> are the non-finite ones (\<^verbatim>\<open>1e400\<close>, \<^verbatim>\<open>Infinity\<close>, \<^verbatim>\<open>NaN\<close>); arrays and objects
  are \<open>JOther\<close>. Text is a list of characters, each a code point below 256.
\<close>

datatype json = JNull | JBool bool | JInt int | JReal rat | JInf | JNaN | JStr string | JOther

text \<open>
  White space as \<^verbatim>\<open>str.strip()\<close> removes it and \<^verbatim>\<open>int()\<close> skips it. Among the code points
  below 256 these are 9..13, 28..32, 133 and 160; the only decimal digits there are
  \<^verbatim>\<open>0\<close>..\<^verbatim>\<open>9\<close>.
\<close>

definition is_space :: "char \<Rightarrow> bool" where
  "is_space c =
     (let n = (of_char c :: nat)
      in (9 \<le> n \<and> n \<le> 13) \<or> (28 \<le> n \<and> n \<le> 32) \<or> n = 133 \<or> n = 160)"

definition is_digit :: "char \<Rightarrow> bool" where
  "is_digit c = (let n = (of_char c :: nat) in 48 \<le> n \<and> n \<le> 57)"

definition digit_val :: "char \<Rightarrow> nat" where
  "digit_val c = (of_char c :: nat) - 48"

definition strip :: "string \<Rightarrow> string" where
  "strip s = rev (dropWhile is_space (rev (dropWhile is_space s)))"

text \<open>
  The digits of a decimal literal: single underscores are allowed between digits only.
  \<open>prev\<close> says that the previous character was a digit.
\<close>

fun parse_digits :: "nat \<Rightarrow> bool \<Rightarrow> string \<Rightarrow> nat option" where
  "parse_digits acc prev [] = (if prev then Some acc else None)"
| "parse_digits acc prev (c # cs) =
     (if is_digit c then parse_digits (acc * 10 + digit_val c) True cs
      else if c = CHR ''_'' \<and> prev then parse_digits acc False cs
      else None)"

text \<open>
  \<^verbatim>\<open>int(s)\<close> for a string: optional white space, optional sign, decimal digits. The cap
  that recent interpreters put on the number of digits (4300 by default) is not modelled;
  no statement below relies on a long digit string being accepted.
\<close>

definition int_of_str :: "string \<Rightarrow> py_error + int" where
  "int_of_str s =
     (case strip s of
        [] \<Rightarrow> Inl ValueError
      | c # cs \<Rightarrow>
          if c = CHR ''-'' then
            (case parse_digits 0 False cs of None \<Rightarrow> Inl ValueError | Some n \<Rightarrow> Inr (- int n))
          else if c = CHR ''+'' then
            (case parse_digits 0 False cs of None \<Rightarrow> Inl ValueError | Some n \<Rightarrow> Inr (int n))
          else
            (case parse_digits 0 False (c # cs) of None \<Rightarrow> Inl ValueError | Some n \<Rightarrow> Inr (int n)))"

text \<open>Truncation toward zero, as \<^verbatim>\<open>int()\<close> does on a float.\<close>

definition trunc_rat :: "rat \<Rightarrow> int" where
  "trunc_rat r = (if 0 \<le> r then \<lfloor>r\<rfloor> else - \<lfloor>- r\<rfloor>)"

fun py_int :: "json \<Rightarrow> py_error + int" where
  "py_int (JInt i) = Inr i"
| "py_int (JBool b) = Inr (if b then 1 else 0)"
| "py_int (JReal r) = Inr (trunc_rat r)"
| "py_int JInf = Inl OverflowError"
| "py_int JNaN = Inl ValueError"
| "py_int (JStr s) = int_of_str s"
| "py_int JNull = Inl TypeError"
| "py_int JOther = Inl TypeError"

text \<open>The request body: a JSON object as an association list; \<^verbatim>\<open>data.get(k, d)\<close>.\<close>

type_synonym json_obj = "(string \<times> json) list"

definition get_or :: "json_obj \<Rightarrow> string \<Rightarrow> json \<Rightarrow> json" where
  "get_or data k d = (case map_of data k of None \<Rightarrow> d | Some v \<Rightarrow> v)"

section \<open>Benchmark request parameters\<close>

text \<open>
  The numeric parameters of \<^verbatim>\<open>benchmark_run\<close>, in the order the handler converts them:
  \<^verbatim>\<open>
  year_from = int(data.get('year_from', 1990))
  year_to = int(data.get('year_to', 2000))
  runs = max(5, min(200, int(data.get('runs', 50))))
  limit = max(1, min(200, int(data.get('limit', 50))))
  \<close>
\<close>

record bench_params =
  bp_year_from :: int
  bp_year_to :: int
  bp_runs :: int
  bp_limit :: int

definition parse_params :: "json_obj \<Rightarrow> py_error + bench_params" where
  "parse_params data =
     (case py_int (get_or data ''year_from'' (JInt 1990)) of Inl e \<Rightarrow> Inl e | Inr yf \<Rightarrow>
      case py_int (get_or data ''year_to'' (JInt 2000)) of Inl e \<Rightarrow> Inl e | Inr yt \<Rightarrow>
      case py_int (get_or data ''runs'' (JInt 50)) of Inl e \<Rightarrow> Inl e | Inr r \<Rightarrow>
      case py_int (get_or data ''limit'' (JInt 50)) of Inl e \<Rightarrow> Inl e | Inr l \<Rightarrow>
        Inr \<lparr>bp_year_from = yf, bp_year_to = yt, bp_runs = max 5 (min 200 r), bp_limit = max 1 (min 200 l)\<rparr>)"

section \<open>Statistics reducer: \<^verbatim>\<open>calc_metrics\<close> in \<^verbatim>\<open>benchmark_run\<close>\<close>

text \<open>
  Latencies are Python floats (milliseconds); the model takes them as rationals, so
  sums, means and comparisons are exact. \<^verbatim>\<open>round(x, d)\<close> rounds half to even.
\<close>

definition round_half_even :: "rat \<Rightarrow> int" where
  "round_half_even x =
     (let f = \<lfloor>x\<rfloor>; d = x - of_int f
      in if d < 1 / 2 then f else if 1 / 2 < d then f + 1 else if even f then f else f + 1)"

definition py_round :: "rat \<Rightarrow> nat \<Rightarrow> rat" where
  "py_round x d = of_int (round_half_even (x * 10 ^ d)) / 10 ^ d"

text \<open>\<^verbatim>\<open>statistics.mean\<close> and \<^verbatim>\<open>statistics.median\<close> on a non-empty list.\<close>

definition mean :: "rat list \<Rightarrow> rat" where
  "mean xs = sum_list xs / of_nat (length xs)"

definition median :: "rat list \<Rightarrow> rat" where
  "median xs =
     (let s = sort xs; n = length xs
      in if odd n then s ! (n div 2) else (s ! (n div 2 - 1) + s ! (n div 2)) / 2)"

text \<open>
  \<^verbatim>\<open>int(len(latencies) * 0.95)\<close>: the product is a double; truncating it gives
  \<open>19 * n div 20\<close> for every list length below 100000.
\<close>

definition p95_index :: "nat \<Rightarrow> nat" where
  "p95_index n = (n * 19) div 20"

text \<open>List indexing with a non-negative index raises \<^verbatim>\<open>IndexError\<close> out of range.\<close>

definition py_index :: "'a list \<Rightarrow> nat \<Rightarrow> py_error + 'a" where
  "py_index xs i = (if i < length xs then Inr (xs ! i) else Inl IndexError)"

record metrics =
  avg_latency_ms :: rat
  median_latency_ms :: rat
  p95_latency_ms :: rat
  min_latency_ms :: rat
  max_latency_ms :: rat
  total_time_ms :: rat
  ops_per_sec :: rat
  m_runs :: nat
  m_warmup :: nat
  result_count :: nat

text \<open>
  \<^verbatim>\<open>
  def calc_metrics(latencies, result_count):
      if not latencies:
          return None
      total_time = sum(latencies)
      return {
          "avg_latency_ms": round(statistics.mean(latencies), 3),
          "median_latency_ms": round(statistics.median(latencies), 3),
          "p95_latency_ms": round(sorted(latencies)[int(len(latencies) * 0.95)], 3)
                            if len(latencies) >= 20 else round(max(latencies), 3),
          "min_latency_ms": round(min(latencies), 3),
          "max_latency_ms": round(max(latencies), 3),
          "total_time_ms": round(total_time, 3),
          "ops_per_sec": round(len(latencies) / (total_time / 1000), 2) if total_time > 0 else 0,
          "runs": len(latencies), "warmup": warmup_runs, "result_count": result_count }
  \<close>
\<close>

definition calc_metrics :: "nat \<Rightarrow> rat list \<Rightarrow> nat \<Rightarrow> py_error + metrics option" where
  "calc_metrics warmup_runs latencies rc =
     (if latencies = [] then Inr None
      else
        let total_time = sum_list latencies in
        case (if 20 \<le> length latencies
              then (case py_index (sort latencies) (p95_index (length latencies)) of
                      Inl e \<Rightarrow> Inl e | Inr v \<Rightarrow> Inr (py_round v 3))
              else Inr (py_round (Max (set latencies)) 3)) of
          Inl e \<Rightarrow> Inl e
        | Inr p95 \<Rightarrow>
            Inr (Some \<lparr>
              avg_latency_ms = py_round (mean latencies) 3,
              median_latency_ms = py_round (median latencies) 3,
              p95_latency_ms = p95,
              min_latency_ms = py_round (Min (set latencies)) 3,
              max_latency_ms = py_round (Max (set latencies)) 3,
              total_time_ms = py_round total_time 3,
              ops_per_sec =
                (if 0 < total_time
                 then py_round (of_nat (length latencies) / (total_time / 1000)) 2 else 0),
              m_runs = length latencies,
              m_warmup = warmup_runs,
              result_count = rc\<rparr>))"

text \<open>
  The nearest-rank percentile the specification names: the \<open>P\<close>-th percentile of \<open>n\<close>
  sorted values is the value at ordinal rank \<open>\<lceil>P / 100 * n\<rceil>\<close>, counted from 1.
\<close>

definition nearest_rank :: "nat \<Rightarrow> rat list \<Rightarrow> rat" where
  "nearest_rank P xs =
     sort xs ! (nat \<lceil>(of_nat P :: rat) / 100 * of_nat (length xs)\<rceil> - 1)"

text \<open>
  The sample list of the specification's test: 100 values spread evenly over 5..500.
\<close>

definition spec_samples :: "rat list" where
  "spec_samples = map (\<lambda>k. 5 * of_nat k) [1..<101]"

section \<open>Comparison reporter: the summary of \<^verbatim>\<open>compare_top_movies\<close> and \<^verbatim>\<open>compare_trending\<close>\<close>

text \<open>
  Both handlers of \<^verbatim>\<open>src/backend/api/compare_routes.py\<close> end with the same lines:
  \<^verbatim>\<open>
  faster = 'sql' if sql_time < nosql_time else 'nosql'
  speedup = max(sql_time, nosql_time) / min(sql_time, nosql_time)
  results['comparison'] = {'faster': faster, 'speedup_factor': round(speedup, 2),
                           'difference_ms': round(abs(sql_time - nosql_time), 2), ...}
  \<close>
  Division of floats by zero raises \<^verbatim>\<open>ZeroDivisionError\<close>; the handler's
  \<^verbatim>\<open>except Exception\<close> turns it into an error response with status 500.
\<close>

datatype engine = Sql | Nosql

record comparison =
  faster :: engine
  speedup_factor :: rat
  difference_ms :: rat

definition py_div :: "rat \<Rightarrow> rat \<Rightarrow> py_error + rat" where
  "py_div a b = (if b = 0 then Inl ZeroDivisionError else Inr (a / b))"

definition compare_summary :: "rat \<Rightarrow> rat \<Rightarrow> py_error + comparison" where
  "compare_summary sql_time nosql_time =
     (let f = (if sql_time < nosql_time then Sql else Nosql) in
      case py_div (max sql_time nosql_time) (min sql_time nosql_time) of
        Inl e \<Rightarrow> Inl e
      | Inr speedup \<Rightarrow>
          Inr \<lparr>faster = f, speedup_factor = py_round speedup 2,
               difference_ms = py_round \<bar>sql_time - nosql_time\<bar> 2\<rparr>)"

text \<open>The handler's answer: status code and, on success, the comparison.\<close>

definition compare_response :: "rat \<Rightarrow> rat \<Rightarrow> nat \<times> comparison option" where
  "compare_response sql_time nosql_time =
     (case compare_summary sql_time nosql_time of
        Inl e \<Rightarrow> (500, None)
      | Inr c \<Rightarrow> (200, Some c))"

section \<open>Benchmark harness: \<^verbatim>\<open>benchmark_run\<close>\<close>

text \<open>
  The handler talks to two engines and reads a clock. The model does not interpret the
  query texts: the \<open>k\<close>-th call to an engine either raises (with the engine's message)
  or returns its rows, given by their identifiers. \<open>world\<close> counts the calls made so far
  and the relational cursors that were opened and not yet closed.
\<close>

record env =
  pg_engine :: "nat \<Rightarrow> string + int list"
  mongo_engine :: "nat \<Rightarrow> string + int list"
  perf_counter :: "nat \<Rightarrow> rat"
  cast_is_array :: bool

record world =
  pg_calls :: nat
  mongo_calls :: nat
  clock_reads :: nat
  open_cursors :: nat

type_synonym 'a step = "world \<Rightarrow> (py_error + 'a) \<times> world"

definition pg_query :: "env \<Rightarrow> int list step" where
  "pg_query E w =
     ((case pg_engine E (pg_calls w) of Inl msg \<Rightarrow> Inl (EngineError msg) | Inr rows \<Rightarrow> Inr rows),
      w\<lparr>pg_calls := Suc (pg_calls w)\<rparr>)"

definition mongo_query :: "env \<Rightarrow> int list step" where
  "mongo_query E w =
     ((case mongo_engine E (mongo_calls w) of Inl msg \<Rightarrow> Inl (EngineError msg) | Inr rows \<Rightarrow> Inr rows),
      w\<lparr>mongo_calls := Suc (mongo_calls w)\<rparr>)"

definition read_clock :: "env \<Rightarrow> world \<Rightarrow> rat \<times> world" where
  "read_clock E w = (perf_counter E (clock_reads w), w\<lparr>clock_reads := Suc (clock_reads w)\<rparr>)"

text \<open>
  \<^verbatim>\<open>for _ in range(warmup_runs): op()\<close> and the measured loop
  \<^verbatim>\<open>
  for _ in range(runs):
      start = time.perf_counter(); results = op(); end = time.perf_counter()
      latencies.append((end - start) * 1000); result_count = count(results)
  \<close>
\<close>

fun warmup :: "int list step \<Rightarrow> nat \<Rightarrow> unit step" where
  "warmup opn 0 w = (Inr (), w)"
| "warmup opn (Suc n) w =
     (case opn w of (Inl e, w') \<Rightarrow> (Inl e, w') | (Inr rows, w') \<Rightarrow> warmup opn n w')"

fun measure_loop ::
  "env \<Rightarrow> int list step \<Rightarrow> (int list \<Rightarrow> nat) \<Rightarrow> nat \<Rightarrow> rat list \<Rightarrow> nat \<Rightarrow> (rat list \<times> nat) step" where
  "measure_loop E opn cnt 0 lats rc w = (Inr (lats, rc), w)"
| "measure_loop E opn cnt (Suc n) lats rc w =
     (case read_clock E w of (start, w1) \<Rightarrow>
      case opn w1 of
        (Inl e, w2) \<Rightarrow> (Inl e, w2)
      | (Inr rows, w2) \<Rightarrow>
          (case read_clock E w2 of (stop, w3) \<Rightarrow>
             measure_loop E opn cnt n (lats @ [(stop - start) * 1000]) (cnt rows) w3))"

definition run_engine ::
  "env \<Rightarrow> int list step \<Rightarrow> (int list \<Rightarrow> nat) \<Rightarrow> nat \<Rightarrow> nat \<Rightarrow> (rat list \<times> nat) step" where
  "run_engine E opn cnt warmup_runs n w =
     (case warmup opn warmup_runs w of
        (Inl e, w') \<Rightarrow> (Inl e, w')
      | (Inr u, w') \<Rightarrow> measure_loop E opn cnt n [] 0 w')"

text \<open>The optional explain calls, one per engine; their text is not modelled.\<close>

definition explain_both :: "env \<Rightarrow> bool \<Rightarrow> unit step" where
  "explain_both E include_explain w =
     (if include_explain then
        (case pg_query E w of
           (Inl e, w1) \<Rightarrow> (Inl e, w1)
         | (Inr rows, w1) \<Rightarrow>
             (case mongo_query E w1 of (Inl e, w2) \<Rightarrow> (Inl e, w2) | (Inr rows', w2) \<Rightarrow> (Inr (), w2)))
      else (Inr (), w))"

text \<open>Python truthiness of a JSON value (\<^verbatim>\<open>if x\<close>, \<^verbatim>\<open>if not x\<close>).\<close>

fun truthy :: "json \<Rightarrow> bool" where
  "truthy JNull = False"
| "truthy (JBool b) = b"
| "truthy (JInt i) = (i \<noteq> 0)"
| "truthy (JReal r) = (r \<noteq> 0)"
| "truthy JInf = True"
| "truthy JNaN = True"
| "truthy (JStr s) = (s \<noteq> [])"
| "truthy JOther = True"

text \<open>\<^verbatim>\<open>re.escape(x) if x else ''\<close> raises \<^verbatim>\<open>TypeError\<close> on a truthy value that is not text.\<close>

fun escape_ok :: "json \<Rightarrow> bool" where
  "escape_ok (JStr s) = True"
| "escape_ok v = (\<not> truthy v)"

datatype bench_note =
    NoteWarmup nat
  | NoteOpsPerSec
  | NoteCastArray
  | NoteCastString
  | NoteLinksBridge
  | NoteBothAvg
  | NoteSortBy json
  | NoteUsingMovie json

record bench_result =
  r_test_type :: json
  postgres :: "metrics option"
  mongodb :: "metrics option"
  r_notes :: "bench_note list"
  with_explain :: bool

datatype response =
    Error400 string
  | Error500 py_error
  | Ok200 bench_result

text \<open>
  What a test branch hands to the common tail of the handler: the two sample lists with
  their result counts and the notes, or a response returned from inside the branch.
\<close>

datatype outcome =
    Measured "rat list" nat "rat list" nat "bench_note list"
  | Returned response

definition both_engines ::
  "env \<Rightarrow> (int list \<Rightarrow> nat) \<Rightarrow> nat \<Rightarrow> nat \<Rightarrow> bool \<Rightarrow> bench_note list \<Rightarrow> outcome step" where
  "both_engines E cnt warmup_runs n include_explain ns w =
     (case run_engine E (pg_query E) cnt warmup_runs n w of
        (Inl e, w1) \<Rightarrow> (Inl e, w1)
      | (Inr (pl, pc), w1) \<Rightarrow>
     (case run_engine E (mongo_query E) cnt warmup_runs n w1 of
        (Inl e, w2) \<Rightarrow> (Inl e, w2)
      | (Inr (ml, mc), w2) \<Rightarrow>
     (case explain_both E include_explain w2 of
        (Inl e, w3) \<Rightarrow> (Inl e, w3)
      | (Inr u, w3) \<Rightarrow> (Inr (Measured pl pc ml mc ns), w3))))"

text \<open>The \<^verbatim>\<open>actor\<close> branch probes one credits document between the two engines' loops.\<close>

definition actor_test :: "env \<Rightarrow> nat \<Rightarrow> nat \<Rightarrow> bool \<Rightarrow> bench_note list \<Rightarrow> outcome step" where
  "actor_test E warmup_runs n include_explain ns w =
     (case run_engine E (pg_query E) length warmup_runs n w of
        (Inl e, w1) \<Rightarrow> (Inl e, w1)
      | (Inr (pl, pc), w1) \<Rightarrow>
     (case mongo_query E w1 of
        (Inl e, w2) \<Rightarrow> (Inl e, w2)
      | (Inr sample, w2) \<Rightarrow>
     (let ns' = ns @ [if cast_is_array E then NoteCastArray else NoteCastString] in
      case run_engine E (mongo_query E) length warmup_runs n w2 of
        (Inl e, w3) \<Rightarrow> (Inl e, w3)
      | (Inr (ml, mc), w3) \<Rightarrow>
     (case explain_both E include_explain w3 of
        (Inl e, w4) \<Rightarrow> (Inl e, w4)
      | (Inr u, w4) \<Rightarrow> (Inr (Measured pl pc ml mc ns'), w4)))))"

text \<open>
  The \<^verbatim>\<open>deep_fetch\<close> branch: without a \<^verbatim>\<open>movie_id\<close> it asks each engine for its first
  movie and returns status 400 when there is none; then \<^verbatim>\<open>movie_id = int(movie_id)\<close>.
\<close>

definition deep_fetch_test ::
  "env \<Rightarrow> json \<Rightarrow> nat \<Rightarrow> nat \<Rightarrow> bool \<Rightarrow> bench_note list \<Rightarrow> outcome step" where
  "deep_fetch_test E movie_id warmup_runs n include_explain ns w =
     (let one = (\<lambda>rows. if rows = [] then 0 else (1::nat));
          go = (\<lambda>mid ns' w'.
            case py_int mid of
              Inl e \<Rightarrow> (Inl e, w')
            | Inr i \<Rightarrow> both_engines E one warmup_runs n include_explain ns' w')
      in if \<not> truthy movie_id then
           (case pg_query E w of
              (Inl e, w1) \<Rightarrow> (Inl e, w1)
            | (Inr [], w1) \<Rightarrow> (Inr (Returned (Error400 ''No movies found in PostgreSQL'')), w1)
            | (Inr (i # rest), w1) \<Rightarrow>
           (case mongo_query E w1 of
              (Inl e, w2) \<Rightarrow> (Inl e, w2)
            | (Inr [], w2) \<Rightarrow> (Inr (Returned (Error400 ''No movies found in MongoDB'')), w2)
            | (Inr (j # rest'), w2) \<Rightarrow> go (JInt i) (ns @ [NoteUsingMovie (JInt i)]) w2))
         else go movie_id ns w)"

definition close_cursor :: "world \<Rightarrow> world" where
  "close_cursor w = w\<lparr>open_cursors := open_cursors w - 1\<rparr>"

definition run_test :: "env \<Rightarrow> json_obj \<Rightarrow> bench_params \<Rightarrow> outcome step" where
  "run_test E data p w =
     (let test_type = get_or data ''test_type'' (JStr ''title'');
          include_explain = truthy (get_or data ''include_explain'' (JBool False));
          n = nat (bp_runs p);
          warmup_runs = 3;
          ns = [NoteWarmup warmup_runs, NoteOpsPerSec]
      in if test_type = JStr ''title'' then both_engines E length warmup_runs n include_explain ns w
         else if test_type = JStr ''genre'' then both_engines E length warmup_runs n include_explain ns w
         else if test_type = JStr ''year_range'' then both_engines E length warmup_runs n include_explain ns w
         else if test_type = JStr ''actor'' then actor_test E warmup_runs n include_explain ns w
         else if test_type = JStr ''combined'' then
           both_engines E length warmup_runs n False
             (ns @ [NoteLinksBridge, NoteBothAvg, NoteSortBy (get_or data ''sort_by'' (JStr ''popularity''))]) w
         else if test_type = JStr ''deep_fetch'' then
           deep_fetch_test E (get_or data ''movie_id'' JNull) warmup_runs n include_explain ns w
         else (Inr (Returned (Error400 ''Unknown test_type'')), close_cursor w))"

text \<open>
  The whole handler. Every exception raised inside the \<^verbatim>\<open>try\<close> block ends in the single
  \<^verbatim>\<open>except Exception\<close> clause, which answers with status 500.
\<close>

definition benchmark_run :: "env \<Rightarrow> json_obj \<Rightarrow> world \<Rightarrow> response \<times> world" where
  "benchmark_run E data w =
     (if data = [] then (Error400 ''No JSON data provided'', w)
      else case parse_params data of
        Inl e \<Rightarrow> (Error500 e, w)
      | Inr p \<Rightarrow>
          if \<not> (escape_ok (get_or data ''term'' (JStr ''Toy Story''))
                \<and> escape_ok (get_or data ''genre_term'' (JStr ''Animation''))
                \<and> escape_ok (get_or data ''actor_term'' (JStr ''Tom Hanks'')))
          then (Error500 TypeError, w)
          else
            (case run_test E data p (w\<lparr>open_cursors := Suc (open_cursors w)\<rparr>) of
               (Inl e, w1) \<Rightarrow> (Error500 e, w1)
             | (Inr (Returned r), w1) \<Rightarrow> (r, w1)
             | (Inr (Measured pl pc ml mc ns), w1) \<Rightarrow>
                 (let w2 = close_cursor w1 in
                  case calc_metrics 3 pl pc of
                    Inl e \<Rightarrow> (Error500 e, w2)
                  | Inr pm \<Rightarrow>
                 (case calc_metrics 3 ml mc of
                    Inl e \<Rightarrow> (Error500 e, w2)
                  | Inr mm \<Rightarrow>
                      (Ok200 \<lparr>r_test_type = get_or data ''test_type'' (JStr ''title''),
                              postgres = pm, mongodb = mm, r_notes = ns,
                              with_explain = truthy (get_or data ''include_explain'' (JBool False))\<rparr>,
                       w2)))))"

section \<open>The two stores\<close>

text \<open>
  The relational tables the search query reads, one datatype per row type. A date is
  year, month and day. Popularity, ratings and averages are rationals.
\<close>

type_synonym date = "int \<times> nat \<times> nat"

datatype movie = Movie (m_id: int) (m_title: string) (m_released: "date option")
  (m_popularity: "rat option")

datatype rating_row = RatingRow (rating_id: int) (r_movie_id: int) (r_rating: rat)

datatype movie_genre = MovieGenre (mg_movie_id: int) (mg_genre_id: int)

datatype genre = Genre (genre_id: int) (genre_name: string)

datatype movie_cast = MovieCast (mc_movie_id: int) (mc_person_id: int)

datatype person = Person (person_id: int) (person_name: string)

datatype rel_db = RelDb (movies: "movie list") (ratings: "rating_row list")
  (movie_genres: "movie_genre list") (genres_tbl: "genre list")
  (movie_cast_tbl: "movie_cast list") (people: "person list")

text \<open>
  The document collections. A field that a document may lack is an option. The \<^verbatim>\<open>genres\<close>
  field is a list whose elements are sub-documents (with or without a name) or something
  else; the \<^verbatim>\<open>cast\<close> field of a credits document is a list of sub-documents or a string.
\<close>

datatype genre_elem = GenreDoc "string option" | GenreNotDoc

datatype genres_val = GenresList "genre_elem list" | GenresOther

datatype cast_val = CastList "string option list" | CastStr string

datatype movie_doc = MovieDoc (d_id: "int option") (d_title: "string option")
  (d_original_title: "string option") (d_release_date: "string option")
  (d_popularity: "rat option") (d_genres: "genres_val option")

datatype credit_doc = CreditDoc (c_id: "int option") (c_cast: "cast_val option")

datatype rating_doc = RatingDoc (rd_movie_id: int) (rd_rating: "rat option")

datatype doc_db = DocDb (mongo_movies_col: "movie_doc list")
  (mongo_credits_col: "credit_doc list") (mongo_ratings_col: "rating_doc list")

text \<open>The rows both strategies return.\<close>

datatype date_val = PgDate date | MongoDate string

datatype result_row = ResultRow (rr_movie_id: "int option") (rr_title: "string option")
  (rr_released_date: "date_val option") (rr_popularity: rat) (rr_avg_rating: rat)
  (rr_num_ratings: nat) (rr_genres: string)

datatype sort_mode = ByRating | ByPopularity

text \<open>
  A stable insertion sort by a comparison: the engines' \<^verbatim>\<open>ORDER BY\<close> and \<^verbatim>\<open>$sort\<close>. Rows
  that compare equal keep the order in which the store delivers them.
\<close>

fun insert_by :: "('a \<Rightarrow> 'a \<Rightarrow> bool) \<Rightarrow> 'a \<Rightarrow> 'a list \<Rightarrow> 'a list" where
  "insert_by le x [] = [x]"
| "insert_by le x (y # ys) = (if le x y then x # y # ys else y # insert_by le x ys)"

definition stable_sort :: "('a \<Rightarrow> 'a \<Rightarrow> bool) \<Rightarrow> 'a list \<Rightarrow> 'a list" where
  "stable_sort le xs = foldr (insert_by le) xs []"

text \<open>Descending order with absent values last: \<open>x\<close> may come before \<open>y\<close>.\<close>

fun desc_nulls_last :: "rat option \<Rightarrow> rat option \<Rightarrow> bool" where
  "desc_nulls_last None y = (y = None)"
| "desc_nulls_last (Some a) None = True"
| "desc_nulls_last (Some a) (Some b) = (b \<le> a)"

definition join_str :: "string \<Rightarrow> string list \<Rightarrow> string" where
  "join_str sep xs = (case xs of [] \<Rightarrow> [] | y # ys \<Rightarrow> y @ concat (map (\<lambda>z. sep @ z) ys))"

text \<open>Python truthiness of an optional string and of an optional integer.\<close>

definition truthy_str :: "string option \<Rightarrow> bool" where
  "truthy_str s = (case s of None \<Rightarrow> False | Some t \<Rightarrow> t \<noteq> [])"

definition truthy_int :: "int option \<Rightarrow> bool" where
  "truthy_int i = (case i of None \<Rightarrow> False | Some n \<Rightarrow> n \<noteq> 0)"

section \<open>Relational query strategy: \<^verbatim>\<open>search_postgres\<close>\<close>

text \<open>
  The function assembles a list of joins, a list of conditions with their parameters, an
  ordering and a limit, in this order:
  \<^verbatim>\<open>
  where_conditions = ["1=1"]
  if title:  where m.title ILIKE %title%
  if genre:  JOIN movie_genres mg, JOIN genres g;  where g.genre_name ILIKE %genre%
  if actor:  JOIN movie_cast mc, JOIN people p;    where p.name ILIKE %actor%
  if year_start and year_end:
             where EXTRACT(YEAR FROM m.released_date) BETWEEN int(year_start) AND int(year_end)
  order_by = avg_rating DESC NULLS LAST, popularity DESC NULLS LAST   if sort_by == 'rating'
             popularity DESC NULLS LAST                                otherwise
  \<close>
\<close>

datatype pg_join = JoinMovieGenres | JoinGenres | JoinMovieCast | JoinPeople

datatype pg_cond =
    CondTrue
  | TitleILike string
  | GenreILike string
  | ActorILike string
  | YearBetween int int

datatype pg_query = PgQuery (q_joins: "pg_join list") (q_where: "pg_cond list")
  (q_order: sort_mode) (q_limit: int)

definition wrap_pct :: "string \<Rightarrow> string" where
  "wrap_pct t = ''%'' @ t @ ''%''"

definition build_pg_query ::
  "string option \<Rightarrow> string option \<Rightarrow> int option \<Rightarrow> int option \<Rightarrow> string \<Rightarrow> int \<Rightarrow> string option
   \<Rightarrow> pg_query" where
  "build_pg_query genre actor year_start year_end sort_by limit title =
     (let (j0, c0) = ([], [CondTrue]);
          (j1, c1) = (if truthy_str title then (j0, c0 @ [TitleILike (wrap_pct (the title))])
                      else (j0, c0));
          (j2, c2) = (if truthy_str genre
                      then (j1 @ [JoinMovieGenres, JoinGenres], c1 @ [GenreILike (wrap_pct (the genre))])
                      else (j1, c1));
          (j3, c3) = (if truthy_str actor
                      then (j2 @ [JoinMovieCast, JoinPeople], c2 @ [ActorILike (wrap_pct (the actor))])
                      else (j2, c2));
          (j4, c4) = (if truthy_int year_start \<and> truthy_int year_end
                      then (j3, c3 @ [YearBetween (the year_start) (the year_end)])
                      else (j3, c3))
      in PgQuery j4 c4 (if sort_by = ''rating'' then ByRating else ByPopularity) limit)"

text \<open>
  The meaning of the assembled statement. For one movie the joined rows are all
  combinations of: its ratings (left join), its display genres (left joins \<open>mg2\<close>,
  \<open>g2\<close>), and, when joined, its genres \<open>g\<close> and its cast \<open>p\<close> (inner joins).
\<close>

definition left_join :: "'a list \<Rightarrow> 'a option list" where
  "left_join xs = (if xs = [] then [None] else map Some xs)"

definition genres_of :: "rel_db \<Rightarrow> movie \<Rightarrow> genre list" where
  "genres_of db m =
     concat (map (\<lambda>mg. filter (\<lambda>g. genre_id g = mg_genre_id mg) (genres_tbl db))
       (filter (\<lambda>mg. mg_movie_id mg = m_id m) (movie_genres db)))"

definition display_genres_of :: "rel_db \<Rightarrow> movie \<Rightarrow> genre option list" where
  "display_genres_of db m =
     concat (map (\<lambda>mg. case mg of None \<Rightarrow> [None]
                        | Some x \<Rightarrow> left_join (filter (\<lambda>g. genre_id g = mg_genre_id x) (genres_tbl db)))
       (left_join (filter (\<lambda>mg. mg_movie_id mg = m_id m) (movie_genres db))))"

definition cast_of :: "rel_db \<Rightarrow> movie \<Rightarrow> person list" where
  "cast_of db m =
     concat (map (\<lambda>mc. filter (\<lambda>p. person_id p = mc_person_id mc) (people db))
       (filter (\<lambda>mc. mc_movie_id mc = m_id m) (movie_cast_tbl db)))"

datatype joined = Joined (j_rating: "rating_row option") (j_genre2: "genre option")
  (j_genre: "genre option") (j_person: "person option")

definition joined_rows :: "rel_db \<Rightarrow> pg_join list \<Rightarrow> movie \<Rightarrow> joined list" where
  "joined_rows db js m =
     concat (map (\<lambda>r.
       concat (map (\<lambda>g2.
         concat (map (\<lambda>g.
           map (\<lambda>p. Joined r g2 g p)
             (if JoinPeople \<in> set js then map Some (cast_of db m) else [None]))
           (if JoinGenres \<in> set js then map Some (genres_of db m) else [None])))
         (display_genres_of db m)))
       (left_join (filter (\<lambda>r. r_movie_id r = m_id m) (ratings db))))"

fun cond_holds :: "(string \<Rightarrow> string \<Rightarrow> bool) \<Rightarrow> movie \<Rightarrow> joined \<Rightarrow> pg_cond \<Rightarrow> bool" where
  "cond_holds ilike m j CondTrue = True"
| "cond_holds ilike m j (TitleILike pat) = ilike pat (m_title m)"
| "cond_holds ilike m j (GenreILike pat) =
     (case j_genre j of None \<Rightarrow> False | Some g \<Rightarrow> ilike pat (genre_name g))"
| "cond_holds ilike m j (ActorILike pat) =
     (case j_person j of None \<Rightarrow> False | Some p \<Rightarrow> ilike pat (person_name p))"
| "cond_holds ilike m j (YearBetween a b) =
     (case m_released m of None \<Rightarrow> False | Some d \<Rightarrow> a \<le> fst d \<and> fst d \<le> b)"

text \<open>One output row per movie that keeps at least one joined row: the grouping columns
  and the three aggregates.\<close>

datatype pg_row = PgRow (g_movie: movie) (g_avg: rat) (g_count: nat) (g_genres: "string option")

definition avg_opt :: "rat list \<Rightarrow> rat option" where
  "avg_opt vs = (if vs = [] then None else Some (sum_list vs / of_nat (length vs)))"

definition group_row :: "movie \<Rightarrow> joined list \<Rightarrow> pg_row" where
  "group_row m js =
     (let rs = concat (map (\<lambda>j. case j_rating j of None \<Rightarrow> [] | Some r \<Rightarrow> [r]) js);
          names = concat (map (\<lambda>j. case j_genre2 j of None \<Rightarrow> [] | Some g \<Rightarrow> [genre_name g]) js)
      in PgRow m
           (case avg_opt (map r_rating rs) of None \<Rightarrow> 0 | Some a \<Rightarrow> a)
           (length (remdups (map rating_id rs)))
           (if names = [] then None else Some (join_str '', '' (sort (remdups names)))))"

definition pg_groups :: "(string \<Rightarrow> string \<Rightarrow> bool) \<Rightarrow> rel_db \<Rightarrow> pg_query \<Rightarrow> pg_row list" where
  "pg_groups ilike db q =
     concat (map (\<lambda>m.
       (let js = filter (\<lambda>j. list_all (cond_holds ilike m j) (q_where q))
                   (joined_rows db (q_joins q) m)
        in if js = [] then [] else [group_row m js]))
       (movies db))"

fun pg_before :: "sort_mode \<Rightarrow> pg_row \<Rightarrow> pg_row \<Rightarrow> bool" where
  "pg_before ByRating x y =
     (g_avg y < g_avg x
      \<or> (g_avg x = g_avg y \<and> desc_nulls_last (m_popularity (g_movie x)) (m_popularity (g_movie y))))"
| "pg_before ByPopularity x y =
     desc_nulls_last (m_popularity (g_movie x)) (m_popularity (g_movie y))"

definition pg_execute ::
  "(string \<Rightarrow> string \<Rightarrow> bool) \<Rightarrow> rel_db \<Rightarrow> pg_query \<Rightarrow> py_error + pg_row list" where
  "pg_execute ilike db q =
     (if q_limit q < 0 then Inl (EngineError ''LIMIT must not be negative'')
      else Inr (take (nat (q_limit q)) (stable_sort (pg_before (q_order q)) (pg_groups ilike db q))))"

definition pg_to_movie :: "pg_row \<Rightarrow> result_row" where
  "pg_to_movie row =
     ResultRow (Some (m_id (g_movie row))) (Some (m_title (g_movie row)))
       (map_option PgDate (m_released (g_movie row)))
       (case m_popularity (g_movie row) of None \<Rightarrow> 0 | Some p \<Rightarrow> p)
       (g_avg row) (g_count row)
       (case g_genres row of None \<Rightarrow> [] | Some s \<Rightarrow> s)"

definition search_postgres ::
  "(string \<Rightarrow> string \<Rightarrow> bool) \<Rightarrow> rel_db \<Rightarrow> string option \<Rightarrow> string option \<Rightarrow> int option
   \<Rightarrow> int option \<Rightarrow> string \<Rightarrow> int \<Rightarrow> string option \<Rightarrow> py_error + result_row list" where
  "search_postgres ilike db genre actor year_start year_end sort_by limit title =
     (case pg_execute ilike db (build_pg_query genre actor year_start year_end sort_by limit title) of
        Inl e \<Rightarrow> Inl e
      | Inr rows \<Rightarrow> Inr (map pg_to_movie rows))"

section \<open>Document query strategy: \<^verbatim>\<open>search_mongo\<close>\<close>

text \<open>\<^verbatim>\<open>f"{year}"\<close>: the decimal digits of an integer, with a minus sign when negative.\<close>

definition digit_char :: "nat \<Rightarrow> char" where
  "digit_char n = char_of (48 + n)"

function str_of_nat :: "nat \<Rightarrow> string" where
  "str_of_nat n = (if n < 10 then [digit_char n] else str_of_nat (n div 10) @ [digit_char (n mod 10)])"
  by pat_completeness auto
termination
  by (relation "measure id") auto

definition str_of_int :: "int \<Rightarrow> string" where
  "str_of_int i = (if i < 0 then CHR ''-'' # str_of_nat (nat (- i)) else str_of_nat (nat i))"

text \<open>Comparison of strings as the document engine orders them: by character code.\<close>

fun str_le :: "string \<Rightarrow> string \<Rightarrow> bool" where
  "str_le [] ys = True"
| "str_le (x # xs) [] = False"
| "str_le (x # xs) (y # ys) =
     ((of_char x :: nat) < of_char y \<or> (x = y \<and> str_le xs ys))"

text \<open>
  The operations the function performs on the collections, in the order performed. The
  match stage of the pipeline carries the conditions of \<^verbatim>\<open>match_conditions\<close>.
\<close>

datatype credits_query = CastNameRegex string | CastRegex string

datatype match_cond =
    MTitle string
  | MGenres string
  | MReleaseDate string string
  | MIdIn "int list"

datatype stage =
    Match "match_cond list"
  | LookupRatings
  | AddFields
  | ProjectOut
  | Sort sort_mode
  | Limit int

datatype mongo_op =
    FindOneCredit
  | FindCredits credits_query
  | Aggregate "stage list"

text \<open>The engine's side. \<open>regex pat s\<close> says that the case-insensitive regular expression
  \<open>pat\<close> matches somewhere in \<open>s\<close>; it is a parameter of the model.\<close>

definition find_one_cast_exists :: "doc_db \<Rightarrow> credit_doc option" where
  "find_one_cast_exists db =
     (case filter (\<lambda>c. c_cast c \<noteq> None) (mongo_credits_col db) of [] \<Rightarrow> None | c # cs \<Rightarrow> Some c)"

fun credit_matches :: "(string \<Rightarrow> string \<Rightarrow> bool) \<Rightarrow> credits_query \<Rightarrow> credit_doc \<Rightarrow> bool" where
  "credit_matches regex (CastNameRegex pat) c =
     (case c_cast c of
        Some (CastList names) \<Rightarrow> list_ex (\<lambda>n. case n of None \<Rightarrow> False | Some t \<Rightarrow> regex pat t) names
      | _ \<Rightarrow> False)"
| "credit_matches regex (CastRegex pat) c =
     (case c_cast c of Some (CastStr t) \<Rightarrow> regex pat t | _ \<Rightarrow> False)"

definition find_credits :: "(string \<Rightarrow> string \<Rightarrow> bool) \<Rightarrow> doc_db \<Rightarrow> credits_query \<Rightarrow> nat \<Rightarrow> credit_doc list" where
  "find_credits regex db q n = take n (filter (credit_matches regex q) (mongo_credits_col db))"

fun match_holds :: "(string \<Rightarrow> string \<Rightarrow> bool) \<Rightarrow> movie_doc \<Rightarrow> match_cond \<Rightarrow> bool" where
  "match_holds regex d (MTitle pat) =
     ((case d_title d of None \<Rightarrow> False | Some t \<Rightarrow> regex pat t)
      \<or> (case d_original_title d of None \<Rightarrow> False | Some t \<Rightarrow> regex pat t))"
| "match_holds regex d (MGenres pat) =
     (case d_genres d of
        Some (GenresList es) \<Rightarrow>
          list_ex (\<lambda>e. case e of GenreDoc (Some n) \<Rightarrow> regex pat n | _ \<Rightarrow> False) es
      | _ \<Rightarrow> False)"
| "match_holds regex d (MReleaseDate lo hi) =
     (case d_release_date d of None \<Rightarrow> False | Some t \<Rightarrow> str_le lo t \<and> str_le t hi)"
| "match_holds regex d (MIdIn ids) =
     (case d_id d of None \<Rightarrow> False | Some i \<Rightarrow> i \<in> set ids)"

datatype agg_doc = AggDoc (a_doc: movie_doc) (a_ratings: "rating_doc list option")
  (a_avg_rating: "rat option") (a_num_ratings: "nat option")

definition mongo_before :: "sort_mode \<Rightarrow> agg_doc \<Rightarrow> agg_doc \<Rightarrow> bool" where
  "mongo_before mode x y =
     (case mode of
        ByRating \<Rightarrow>
          desc_nulls_last (a_avg_rating x) (a_avg_rating y)
          \<and> (\<not> desc_nulls_last (a_avg_rating y) (a_avg_rating x)
             \<or> desc_nulls_last (d_popularity (a_doc x)) (d_popularity (a_doc y)))
      | ByPopularity \<Rightarrow> desc_nulls_last (d_popularity (a_doc x)) (d_popularity (a_doc y)))"

fun run_stage ::
  "(string \<Rightarrow> string \<Rightarrow> bool) \<Rightarrow> doc_db \<Rightarrow> stage \<Rightarrow> agg_doc list \<Rightarrow> py_error + agg_doc list" where
  "run_stage regex db (Match cs) ds =
     Inr (filter (\<lambda>a. list_all (match_holds regex (a_doc a)) cs) ds)"
| "run_stage regex db LookupRatings ds =
     Inr (map (\<lambda>a. AggDoc (a_doc a)
                  (Some (filter (\<lambda>r. Some (rd_movie_id r) = d_id (a_doc a)) (mongo_ratings_col db)))
                  (a_avg_rating a) (a_num_ratings a)) ds)"
| "run_stage regex db AddFields ds =
     (if list_ex (\<lambda>a. a_ratings a = None) ds
      then Inl (EngineError ''The argument to $size must be an array'')
      else Inr (map (\<lambda>a. AggDoc (a_doc a) (a_ratings a)
                  (Some (case avg_opt (concat (map (\<lambda>r. case rd_rating r of None \<Rightarrow> [] | Some v \<Rightarrow> [v])
                                          (the (a_ratings a)))) of
                           None \<Rightarrow> 0 | Some v \<Rightarrow> v))
                  (Some (length (the (a_ratings a))))) ds))"
| "run_stage regex db ProjectOut ds =
     Inr (map (\<lambda>a. AggDoc (a_doc a) None (a_avg_rating a) (a_num_ratings a)) ds)"
| "run_stage regex db (Sort mode) ds = Inr (stable_sort (mongo_before mode) ds)"
| "run_stage regex db (Limit n) ds =
     (if n \<le> 0 then Inl (EngineError ''the limit must be positive'') else Inr (take (nat n) ds))"

fun run_stages ::
  "(string \<Rightarrow> string \<Rightarrow> bool) \<Rightarrow> doc_db \<Rightarrow> stage list \<Rightarrow> agg_doc list \<Rightarrow> py_error + agg_doc list" where
  "run_stages regex db [] ds = Inr ds"
| "run_stages regex db (st # sts) ds =
     (case run_stage regex db st ds of Inl e \<Rightarrow> Inl e | Inr ds' \<Rightarrow> run_stages regex db sts ds')"

definition aggregate ::
  "(string \<Rightarrow> string \<Rightarrow> bool) \<Rightarrow> doc_db \<Rightarrow> stage list \<Rightarrow> py_error + agg_doc list" where
  "aggregate regex db pipeline =
     run_stages regex db pipeline (map (\<lambda>d. AggDoc d None None None) (mongo_movies_col db))"

text \<open>The function's own code: step 1 resolves the actor, step 2 builds the pipeline.\<close>

definition resolve_actor ::
  "(string \<Rightarrow> string \<Rightarrow> bool) \<Rightarrow> doc_db \<Rightarrow> string \<Rightarrow> int list \<times> mongo_op list" where
  "resolve_actor regex db actor =
     (let sample_credit = find_one_cast_exists db;
          credits_query =
            (case sample_credit of
               Some (CreditDoc i (Some (CastList names))) \<Rightarrow> CastNameRegex actor
             | _ \<Rightarrow> CastRegex actor);
          credit_results = find_credits regex db credits_query 500
      in (concat (map (\<lambda>c. case c_id c of None \<Rightarrow> [] | Some i \<Rightarrow> [i]) credit_results),
          [FindOneCredit, FindCredits credits_query]))"

definition match_conditions ::
  "string option \<Rightarrow> int list option \<Rightarrow> int option \<Rightarrow> int option \<Rightarrow> string option
   \<Rightarrow> match_cond list" where
  "match_conditions genre tmdb_ids_from_actor year_start year_end title =
     (let m1 = (if truthy_str title then [MTitle (the title)] else []);
          m2 = m1 @ (if truthy_str genre then [MGenres (the genre)] else []);
          m3 = m2 @ (if truthy_int year_start \<and> truthy_int year_end
                     then [MReleaseDate (str_of_int (the year_start) @ ''-01-01'')
                                        (str_of_int (the year_end) @ ''-12-31'')]
                     else [])
      in m3 @ (case tmdb_ids_from_actor of None \<Rightarrow> [] | Some ids \<Rightarrow>
                 if ids = [] then [] else [MIdIn ids]))"

definition build_pipeline ::
  "string option \<Rightarrow> int list option \<Rightarrow> int option \<Rightarrow> int option \<Rightarrow> string \<Rightarrow> int \<Rightarrow> string option
   \<Rightarrow> stage list" where
  "build_pipeline genre tmdb_ids_from_actor year_start year_end sort_by limit title =
     (let mc = match_conditions genre tmdb_ids_from_actor year_start year_end title
      in (if mc = [] then [] else [Match mc])
         @ [LookupRatings, AddFields, ProjectOut,
            Sort (if sort_by = ''rating'' then ByRating else ByPopularity),
            Limit limit])"

definition mongo_to_movie :: "agg_doc \<Rightarrow> result_row" where
  "mongo_to_movie a =
     (let doc = a_doc a;
          genre_names =
            (case d_genres doc of
               Some (GenresList es) \<Rightarrow>
                 join_str '', ''
                   (concat (map (\<lambda>e. case e of GenreDoc n \<Rightarrow> [case n of None \<Rightarrow> [] | Some t \<Rightarrow> t]
                                       | GenreNotDoc \<Rightarrow> []) es))
             | _ \<Rightarrow> [])
      in ResultRow (d_id doc)
           (if truthy_str (d_original_title doc) then d_original_title doc
            else Some (case d_title doc of None \<Rightarrow> [] | Some t \<Rightarrow> t))
           (map_option MongoDate (d_release_date doc))
           (case d_popularity doc of None \<Rightarrow> 0 | Some p \<Rightarrow> p)
           (case a_avg_rating a of None \<Rightarrow> 0 | Some v \<Rightarrow> v)
           (case a_num_ratings a of None \<Rightarrow> 0 | Some n \<Rightarrow> n)
           genre_names)"

definition search_mongo ::
  "(string \<Rightarrow> string \<Rightarrow> bool) \<Rightarrow> doc_db \<Rightarrow> string option \<Rightarrow> string option \<Rightarrow> int option
   \<Rightarrow> int option \<Rightarrow> string \<Rightarrow> int \<Rightarrow> string option
   \<Rightarrow> (py_error + result_row list) \<times> mongo_op list" where
  "search_mongo regex db genre actor year_start year_end sort_by limit title =
     (let (tmdb_ids_from_actor, ops) =
            (if truthy_str actor
             then (case resolve_actor regex db (the actor) of (ids, ops) \<Rightarrow> (Some ids, ops))
             else (None, []))
      in if tmdb_ids_from_actor = Some [] then (Inr [], ops)
         else
           (let pipeline = build_pipeline genre tmdb_ids_from_actor year_start year_end sort_by limit title
            in ((case aggregate regex db pipeline of
                   Inl e \<Rightarrow> Inl e
                 | Inr results \<Rightarrow> Inr (map mongo_to_movie results)),
                ops @ [Aggregate pipeline])))"

section \<open>Interactive search handlers: \<^verbatim>\<open>combined_search\<close> and \<^verbatim>\<open>user_advanced_search\<close>\<close>









section \<open>Consistent stores and sample data\<close>

text \<open>
  The document store that holds the same catalogue as a relational store: one movie
  document per movie row, with the title under both title keys, the release date as
  \<^verbatim>\<open>YYYY-MM-DD\<close> text and the genre names embedded; one credits document per movie with
  its cast names; one ratings document per rating row.
\<close>

definition pad :: "nat \<Rightarrow> string \<Rightarrow> string" where
  "pad n t = replicate (n - length t) (CHR ''0'') @ t"

definition iso_date :: "date \<Rightarrow> string" where
  "iso_date d =
     (case d of (y, m, dd) \<Rightarrow>
        pad 4 (str_of_int y) @ ''-'' @ pad 2 (str_of_nat m) @ ''-'' @ pad 2 (str_of_nat dd))"

definition denormalise :: "rel_db \<Rightarrow> doc_db" where
  "denormalise db =
     DocDb
       (map (\<lambda>m. MovieDoc (Some (m_id m)) (Some (m_title m)) (Some (m_title m))
                   (map_option iso_date (m_released m)) (m_popularity m)
                   (Some (GenresList (map (\<lambda>g. GenreDoc (Some (genre_name g))) (genres_of db m)))))
          (movies db))
       (map (\<lambda>m. CreditDoc (Some (m_id m))
                   (Some (CastList (map (\<lambda>p. Some (person_name p)) (cast_of db m)))))
          (movies db))
       (map (\<lambda>r. RatingDoc (r_movie_id r) (Some (r_rating r))) (ratings db))"

text \<open>
  A matcher for plain text, used where a concrete one is needed: case-insensitive
  containment. \<open>plain_ilike\<close> takes the pattern with its two percent signs.
\<close>

definition lower :: "char \<Rightarrow> char" where
  "lower c = (let n = (of_char c :: nat) in if 65 \<le> n \<and> n \<le> 90 then char_of (n + 32) else c)"

fun prefix_ci :: "string \<Rightarrow> string \<Rightarrow> bool" where
  "prefix_ci [] t = True"
| "prefix_ci (p # ps) [] = False"
| "prefix_ci (p # ps) (c # cs) = (lower p = lower c \<and> prefix_ci ps cs)"

fun contains_ci :: "string \<Rightarrow> string \<Rightarrow> bool" where
  "contains_ci pat [] = (pat = [])"
| "contains_ci pat (c # cs) = (prefix_ci pat (c # cs) \<or> contains_ci pat cs)"

definition plain_ilike :: "string \<Rightarrow> string \<Rightarrow> bool" where
  "plain_ilike pat t = contains_ci (butlast (tl pat)) t"

definition sample_rel :: rel_db where
  "sample_rel = RelDb
     [Movie 1 ''Toy Story'' (Some (1995, 10, 30)) (Some 21),
      Movie 2 ''Heat'' (Some (1995, 12, 15)) None,
      Movie 3 ''Metropolis'' (Some (1927, 1, 10)) (Some 5)]
     [RatingRow 10 1 4, RatingRow 11 1 8, RatingRow 12 3 7]
     [MovieGenre 1 100, MovieGenre 1 101, MovieGenre 2 102, MovieGenre 3 102]
     [Genre 100 ''Animation'', Genre 101 ''Comedy'', Genre 102 ''Drama'']
     [MovieCast 1 500, MovieCast 2 501, MovieCast 2 502]
     [Person 500 ''Tom Hanks'', Person 501 ''Al Pacino'', Person 502 ''Robert De Niro'']"

section \<open>Notions used to state the search properties\<close>

text \<open>
  The ratings a document is joined with and what the lookup and add-fields stages make
  of it; the documents and the movies that pass each strategy's conditions.
\<close>

definition doc_ratings :: "doc_db \<Rightarrow> movie_doc \<Rightarrow> rating_doc list" where
  "doc_ratings db d = filter (\<lambda>r. Some (rd_movie_id r) = d_id d) (mongo_ratings_col db)"

definition rating_values :: "rating_doc list \<Rightarrow> rat list" where
  "rating_values rs = concat (map (\<lambda>r. case rd_rating r of None \<Rightarrow> [] | Some v \<Rightarrow> [v]) rs)"

definition enrich :: "doc_db \<Rightarrow> movie_doc \<Rightarrow> agg_doc" where
  "enrich db d =
     AggDoc d None
       (Some (case avg_opt (rating_values (doc_ratings db d)) of None \<Rightarrow> 0 | Some v \<Rightarrow> v))
       (Some (length (doc_ratings db d)))"

definition doc_matches ::
  "(string \<Rightarrow> string \<Rightarrow> bool) \<Rightarrow> match_cond list \<Rightarrow> movie_doc \<Rightarrow> bool" where
  "doc_matches regex cs d = list_all (match_holds regex d) cs"

definition actor_ids ::
  "(string \<Rightarrow> string \<Rightarrow> bool) \<Rightarrow> doc_db \<Rightarrow> string option \<Rightarrow> int list option" where
  "actor_ids regex db actor =
     (if truthy_str actor then Some (fst (resolve_actor regex db (the actor))) else None)"

definition mongo_matching ::
  "(string \<Rightarrow> string \<Rightarrow> bool) \<Rightarrow> doc_db \<Rightarrow> string option \<Rightarrow> string option \<Rightarrow> int option
   \<Rightarrow> int option \<Rightarrow> string option \<Rightarrow> movie_doc list" where
  "mongo_matching regex db genre actor year_start year_end title =
     (if actor_ids regex db actor = Some [] then []
      else filter (doc_matches regex
                     (match_conditions genre (actor_ids regex db actor) year_start year_end title))
             (mongo_movies_col db))"

definition pg_matches :: "(string \<Rightarrow> string \<Rightarrow> bool) \<Rightarrow> rel_db \<Rightarrow> pg_query \<Rightarrow> movie \<Rightarrow> bool" where
  "pg_matches ilike db q m =
     (filter (\<lambda>j. list_all (cond_holds ilike m j) (q_where q)) (joined_rows db (q_joins q) m) \<noteq> [])"

definition pg_matching :: "(string \<Rightarrow> string \<Rightarrow> bool) \<Rightarrow> rel_db \<Rightarrow> pg_query \<Rightarrow> movie list" where
  "pg_matching ilike db q = filter (pg_matches ilike db q) (movies db)"

text \<open>
  What it means for a movie to pass the filter, said directly on the stored data and
  without any reference to ratings: the title matches, one of the movie's genres matches,
  one of its cast members matches, and the release year lies in the range when both
  bounds are given. For the document store the actor condition is membership in the
  identifiers that the credits lookup resolved.
\<close>

definition pg_filter_holds ::
  "(string \<Rightarrow> string \<Rightarrow> bool) \<Rightarrow> rel_db \<Rightarrow> string option \<Rightarrow> string option \<Rightarrow> int option
   \<Rightarrow> int option \<Rightarrow> string option \<Rightarrow> movie \<Rightarrow> bool" where
  "pg_filter_holds ilike db genre actor year_start year_end title m =
     ((truthy_str title \<longrightarrow> ilike (wrap_pct (the title)) (m_title m))
      \<and> (truthy_str genre \<longrightarrow>
            list_ex (\<lambda>g. ilike (wrap_pct (the genre)) (genre_name g)) (genres_of db m))
      \<and> (truthy_str actor \<longrightarrow>
            list_ex (\<lambda>p. ilike (wrap_pct (the actor)) (person_name p)) (cast_of db m))
      \<and> (truthy_int year_start \<and> truthy_int year_end \<longrightarrow>
            (case m_released m of None \<Rightarrow> False
             | Some d \<Rightarrow> the year_start \<le> fst d \<and> fst d \<le> the year_end)))"

definition mongo_filter_holds ::
  "(string \<Rightarrow> string \<Rightarrow> bool) \<Rightarrow> doc_db \<Rightarrow> string option \<Rightarrow> string option \<Rightarrow> int option
   \<Rightarrow> int option \<Rightarrow> string option \<Rightarrow> movie_doc \<Rightarrow> bool" where
  "mongo_filter_holds regex db genre actor year_start year_end title d =
     ((truthy_str title \<longrightarrow>
         (case d_title d of None \<Rightarrow> False | Some t \<Rightarrow> regex (the title) t)
         \<or> (case d_original_title d of None \<Rightarrow> False | Some t \<Rightarrow> regex (the title) t))
      \<and> (truthy_str genre \<longrightarrow>
            (case d_genres d of
               Some (GenresList es) \<Rightarrow>
                 list_ex (\<lambda>e. case e of GenreDoc (Some n) \<Rightarrow> regex (the genre) n | _ \<Rightarrow> False) es
             | _ \<Rightarrow> False))
      \<and> (truthy_str actor \<longrightarrow>
            (case d_id d of None \<Rightarrow> False
             | Some i \<Rightarrow> i \<in> set (fst (resolve_actor regex db (the actor)))))
      \<and> (truthy_int year_start \<and> truthy_int year_end \<longrightarrow>
            (case d_release_date d of None \<Rightarrow> False
             | Some t \<Rightarrow> str_le (str_of_int (the year_start) @ ''-01-01'') t
                        \<and> str_le t (str_of_int (the year_end) @ ''-12-31''))))"

text \<open>A store in which a rating is negative; nothing in the import scripts prevents it.\<close>

definition sample_negative :: rel_db where
  "sample_negative = RelDb
     [Movie 1 ''Toy Story'' (Some (1995, 10, 30)) (Some 21)]
     [RatingRow 10 1 (- 1)]
     [MovieGenre 1 100]
     [Genre 100 ''Animation'']
     [MovieCast 1 500]
     [Person 500 ''Tom Hanks'']"




definition actor_holds :: "(string \<Rightarrow> string \<Rightarrow> bool) \<Rightarrow> rel_db \<Rightarrow> string \<Rightarrow> movie \<Rightarrow> bool" where
  "actor_holds regex db a m = list_ex (\<lambda>p. regex a (person_name p)) (cast_of db m)"

section \<open>Notions used to state the harness properties\<close>

text \<open>
  \<open>calls_ok E w w'\<close>: between the worlds \<open>w\<close> and \<open>w'\<close> every call made to either engine
  succeeded. A step is \<open>good\<close> when that holds or it ended in an engine error.
\<close>

definition calls_ok :: "env \<Rightarrow> world \<Rightarrow> world \<Rightarrow> bool" where
  "calls_ok E w w' =
     (pg_calls w \<le> pg_calls w' \<and> mongo_calls w \<le> mongo_calls w'
      \<and> (\<forall>k. pg_calls w \<le> k \<and> k < pg_calls w' \<longrightarrow> \<not> isl (pg_engine E k))
      \<and> (\<forall>k. mongo_calls w \<le> k \<and> k < mongo_calls w' \<longrightarrow> \<not> isl (mongo_engine E k)))"

definition good :: "env \<Rightarrow> world \<Rightarrow> (py_error + 'a) \<times> world \<Rightarrow> bool" where
  "good E w res = (calls_ok E w (snd res) \<or> (\<exists>msg. fst res = Inl (EngineError msg)))"

text \<open>Concrete engines: one whose document side is down, one whose relational side fails
  on its fifth call, and one whose stores are empty.\<close>

definition idle_world :: world where
  "idle_world = \<lparr>pg_calls = 0, mongo_calls = 0, clock_reads = 0, open_cursors = 0\<rparr>"

definition mongo_down_env :: env where
  "mongo_down_env = \<lparr>pg_engine = (\<lambda>k. Inr [1]), mongo_engine = (\<lambda>k. Inl ''mongo down''),
     perf_counter = (\<lambda>k. of_nat k), cast_is_array = True\<rparr>"

definition pg_down_env :: env where
  "pg_down_env = \<lparr>pg_engine = (\<lambda>k. if k < 4 then Inr [1, 2] else Inl ''pg down''),
     mongo_engine = (\<lambda>k. Inr [1, 2]),
     perf_counter = (\<lambda>k. of_nat k), cast_is_array = True\<rparr>"

definition empty_store_env :: env where
  "empty_store_env = \<lparr>pg_engine = (\<lambda>k. Inr []), mongo_engine = (\<lambda>k. Inr []),
     perf_counter = (\<lambda>k. of_nat k), cast_is_array = False\<rparr>"

section \<open>Properties\<close>



subsection \<open>The statistics reducer\<close>

lemma sorted_spec_samples: "sorted spec_samples"
  unfolding spec_samples_def by (simp add: sorted_map sorted_wrt_iff_nth_less del: upt.simps upt_Suc)

lemma sort_spec_samples: "sort spec_samples = spec_samples"
  using sorted_spec_samples by (simp add: sort_key_id_if_sorted)

lemma length_spec_samples: "length spec_samples = 100"
  by (simp add: spec_samples_def del: upt.simps upt_Suc)

lemma nth_spec_samples: "i < 100 \<Longrightarrow> spec_samples ! i = 5 * of_nat (i + 1)"
  by (simp add: spec_samples_def del: upt.simps upt_Suc)

lemma p95_index_lt: "0 < n \<Longrightarrow> p95_index n < n"
  by (simp add: p95_index_def)

lemma round_half_even_of_int: "round_half_even (of_int k) = k"
  by (simp add: round_half_even_def)

lemma py_round_of_int: "py_round (of_int k) d = of_int k"
proof -
  have "(of_int k :: rat) * 10 ^ d = of_int (k * 10 ^ d)" by simp
  then have "round_half_even (of_int k * 10 ^ d) = k * 10 ^ d"
    using round_half_even_of_int by presburger
  then show ?thesis by (simp add: py_round_def)
qed

lemma ceil_95: "nat \<lceil>(of_nat 95 :: rat) / 100 * of_nat n\<rceil> = (19 * n + 19) div 20"
proof -
  have e: "(of_nat 95 :: rat) / 100 * of_nat n = of_int (19 * int n) / of_int 20"
    by simp
  have c: "\<lceil>(of_nat 95 :: rat) / 100 * of_nat n\<rceil> = - ((- (19 * int n)) div 20)"
    unfolding e by (rule ceiling_divide_eq_div)
  have i: "- ((- (19 * int n)) div 20) = (19 * int n + 19) div 20"
    by linarith
  have "(19 * int n + 19) div 20 = int ((19 * n + 19) div 20)"
    by (simp add: zdiv_int)
  then show ?thesis using c i by simp
qed

lemma rank_dvd: "20 dvd n \<Longrightarrow> (19 * n + 19) div 20 = 19 * n div 20" for n :: nat
  by (elim dvdE) simp

lemma rank_not_dvd: "\<not> 20 dvd n \<Longrightarrow> (19 * n + 19) div 20 = 19 * n div 20 + 1" for n :: nat
proof -
  assume a: "\<not> 20 dvd n"
  define q where "q = n div 20"
  define r where "r = n mod 20"
  have n: "n = 20 * q + r" by (simp add: q_def r_def)
  have r: "0 < r" "r < 20" using a by (auto simp: r_def dvd_eq_mod_eq_0)
  have 1: "19 * n + 19 = 20 * (19 * q + r) + (19 - r)" using r n by simp
  have 2: "19 * n = 20 * (19 * q + (r - 1)) + (20 - r)" using r n by simp
  have "(19 * n + 19) div 20 = 19 * q + r" unfolding 1 using r by simp
  moreover have "19 * n div 20 = 19 * q + (r - 1)" unfolding 2 using r by simp
  ultimately show ?thesis using r by simp
qed

lemma nearest_rank_95:
  "nearest_rank 95 xs = sort xs ! (if 20 dvd length xs then p95_index (length xs) - 1 else p95_index (length xs))"
proof -
  have c: "nat \<lceil>(of_nat 95 :: rat) / 100 * of_nat (length xs)\<rceil> = (19 * length xs + 19) div 20"
    by (rule ceil_95)
  have p: "p95_index (length xs) = 19 * length xs div 20"
    by (simp add: p95_index_def mult.commute)
  show ?thesis
  proof (cases "20 dvd length xs")
    case True
    show ?thesis unfolding nearest_rank_def c p rank_dvd [OF True] using True by simp
  next
    case False
    show ?thesis unfolding nearest_rank_def c p rank_not_dvd [OF False] using False by simp
  qed
qed

lemma calc_metrics_p95_eq:
  assumes "latencies \<noteq> []"
  shows "map_sum id (map_option p95_latency_ms) (calc_metrics w latencies rc)
    = Inr (Some (py_round (if length latencies < 20 then Max (set latencies)
                           else sort latencies ! p95_index (length latencies)) 3))"
proof -
  have "p95_index (length latencies) < length (sort latencies)"
    using assms by (simp add: p95_index_lt)
  then show ?thesis using assms
    by (simp add: calc_metrics_def py_index_def Let_def)
qed

text \<open>
  C3 (as amended). For a non-empty sample list \<^verbatim>\<open>calc_metrics\<close> returns statistics whose
  p95 is, rounded to three decimals, the maximum when there are fewer than 20 samples and
  otherwise the element at zero-based position \<open>19 * n div 20\<close> of the sorted samples.
  The nearest-rank value (ordinal rank \<open>\<lceil>0.95 * n\<rceil>\<close>) is that element when 20 does not
  divide \<open>n\<close>, and the element one position below it when 20 divides \<open>n\<close>.
\<close>

theorem calc_metrics_p95:
  assumes "latencies \<noteq> []"
  shows "map_sum id (map_option p95_latency_ms) (calc_metrics w latencies rc)
      = Inr (Some (py_round (if length latencies < 20 then Max (set latencies)
                             else sort latencies ! p95_index (length latencies)) 3))
    \<and> p95_index (length latencies) = 19 * length latencies div 20
    \<and> nearest_rank 95 latencies
        = sort latencies ! (if 20 dvd length latencies then p95_index (length latencies) - 1
                            else p95_index (length latencies))"
  using calc_metrics_p95_eq [OF assms] nearest_rank_95
  by (simp add: p95_index_def mult.commute)

lemma spec_samples_ne: "spec_samples \<noteq> []"
  using length_spec_samples by auto

theorem calc_metrics_p95_witness:
  "spec_samples \<noteq> []
   \<and> map_sum id (map_option p95_latency_ms) (calc_metrics 3 spec_samples 7) = Inr (Some 480)"
proof -
  have "sort spec_samples ! p95_index (length spec_samples) = of_int 480"
    by (simp add: sort_spec_samples length_spec_samples p95_index_def nth_spec_samples)
  then show ?thesis
    using calc_metrics_p95 [OF spec_samples_ne, of 3 7] spec_samples_ne
    by (simp add: length_spec_samples py_round_of_int del: of_int_numeral)
qed

text \<open>
  On the 100 samples 5, 10, ..., 500 the reported p95 is 480, the 96th smallest value;
  the 95th-nearest-rank value is 475.
\<close>

theorem p95_nearest_rank_counterexample:
  "map_sum id (map_option p95_latency_ms) (calc_metrics 3 spec_samples 7) = Inr (Some 480)
   \<and> nearest_rank 95 spec_samples = 475
   \<and> map_sum id (map_option p95_latency_ms) (calc_metrics 3 spec_samples 7)
       \<noteq> Inr (Some (py_round (nearest_rank 95 spec_samples) 3))"
proof -
  have a: "sort spec_samples ! p95_index (length spec_samples) = of_int 480"
    by (simp add: sort_spec_samples length_spec_samples p95_index_def nth_spec_samples)
  have b: "nearest_rank 95 spec_samples = of_int 475"
    by (simp add: nearest_rank_95 sort_spec_samples length_spec_samples p95_index_def nth_spec_samples)
  have c: "map_sum id (map_option p95_latency_ms) (calc_metrics 3 spec_samples 7) = Inr (Some (of_int 480))"
    using calc_metrics_p95_eq [OF spec_samples_ne, of 3 7] a
    by (simp add: length_spec_samples py_round_of_int del: of_int_numeral)
  show ?thesis unfolding b c py_round_of_int by simp
qed

subsection \<open>The comparison reporter\<close>

lemma py_round_one: "py_round 1 d = 1"
  using py_round_of_int [of 1 d] by simp

text \<open>
  C4 (as amended). The summary names \<open>Sql\<close> as faster when its time is strictly lower and
  \<open>Nosql\<close> otherwise (also on a tie); the speed-up factor is the larger time divided by
  the smaller, rounded to two decimals, hence 1 for equal non-zero times. The division is
  not guarded: when the smaller time is zero it raises and the handler answers with
  status 500 and no comparison.
\<close>

theorem compare_summary_unguarded:
  "compare_summary a b =
     (if min a b = 0 then Inl ZeroDivisionError
      else Inr \<lparr>faster = (if a < b then Sql else Nosql),
                speedup_factor = py_round (max a b / min a b) 2,
                difference_ms = py_round \<bar>a - b\<bar> 2\<rparr>)
   \<and> (min a b = 0 \<longrightarrow> compare_response a b = (500, None))
   \<and> (a = b \<and> a \<noteq> 0 \<longrightarrow>
        compare_summary a b = Inr \<lparr>faster = Nosql, speedup_factor = 1, difference_ms = 0\<rparr>)"
proof -
  have z: "py_round 0 2 = 0" using py_round_of_int [of 0 2] by simp
  show ?thesis
    by (auto simp: compare_summary_def compare_response_def py_div_def py_round_one z)
qed

theorem compare_summary_unguarded_witness:
  "min (10::rat) 30 \<noteq> 0
   \<and> compare_summary 10 30 = Inr \<lparr>faster = Sql, speedup_factor = 3, difference_ms = 20\<rparr>"
proof -
  have a: "py_round 3 2 = 3" using py_round_of_int [of 3 2] by simp
  have b: "py_round 20 2 = 20" using py_round_of_int [of 20 2] by simp
  show ?thesis using compare_summary_unguarded [of 10 30] by (simp add: a b)
qed

text \<open>Two zero times, or one zero time, give a division error instead of a factor of 1.\<close>

theorem compare_zero_counterexample:
  "compare_summary 0 0 = Inl ZeroDivisionError \<and> compare_response 0 0 = (500, None)
   \<and> compare_summary 0 25 = Inl ZeroDivisionError"
  by (simp add: compare_summary_def compare_response_def py_div_def)

subsection \<open>The benchmark harness\<close>

lemma calls_ok_refl: "calls_ok E w w"
  by (auto simp: calls_ok_def)

lemma calls_ok_trans: "calls_ok E w w1 \<Longrightarrow> calls_ok E w1 w2 \<Longrightarrow> calls_ok E w w2"
  unfolding calls_ok_def by (metis le_trans not_le_imp_less)

lemma calls_ok_same:
  "pg_calls w' = pg_calls w \<Longrightarrow> mongo_calls w' = mongo_calls w \<Longrightarrow> calls_ok E w w'"
  by (auto simp: calls_ok_def)

lemma good_step:
  assumes "good E w (f w)"
    and "\<And>x w1. f w = (Inr x, w1) \<Longrightarrow> good E w1 (g x w1)"
  shows "good E w (case f w of (Inl e, w1) \<Rightarrow> (Inl e, w1) | (Inr x, w1) \<Rightarrow> g x w1)"
proof (cases "f w")
  case (Pair r w1)
  show ?thesis
  proof (cases r)
    case (Inl e)
    then show ?thesis using assms(1) Pair by (simp add: good_def)
  next
    case (Inr x)
    have a: "calls_ok E w w1" using assms(1) Pair Inr by (simp add: good_def)
    have b: "good E w1 (g x w1)" using assms(2) Pair Inr by simp
    show ?thesis using a b Pair Inr calls_ok_trans by (auto simp: good_def)
  qed
qed

lemma good_pg_query: "good E w (pg_query E w)"
  by (auto simp: good_def pg_query_def calls_ok_def less_Suc_eq split: sum.splits)

lemma good_mongo_query: "good E w (mongo_query E w)"
  by (auto simp: good_def mongo_query_def calls_ok_def less_Suc_eq split: sum.splits)

lemma good_return: "pg_calls w' = pg_calls w \<Longrightarrow> mongo_calls w' = mongo_calls w \<Longrightarrow> good E w (r, w')"
  by (simp add: good_def calls_ok_same)

lemma good_shift:
  "pg_calls v = pg_calls w \<Longrightarrow> mongo_calls v = mongo_calls w \<Longrightarrow> good E w res \<Longrightarrow> good E v res"
  by (simp add: good_def calls_ok_def)

lemma good_warmup:
  assumes "\<And>w. good E w (opn w)"
  shows "good E w (warmup opn n w)"
proof (induction n arbitrary: w)
  case 0
  show ?case by (simp add: good_return)
next
  case (Suc n)
  show ?case unfolding warmup.simps
    by (rule good_step [where f = opn and g = "\<lambda>rows. warmup opn n"]) (simp_all add: assms Suc)
qed

lemma good_measure_loop:
  assumes "\<And>w. good E w (opn w)"
  shows "good E w (measure_loop E opn cnt n lats rc w)"
proof (induction n arbitrary: w lats rc)
  case 0
  show ?case by (simp add: good_return)
next
  case (Suc n)
  obtain start w1 where rc1: "read_clock E w = (start, w1)" by (cases "read_clock E w")
  have s1: "pg_calls w1 = pg_calls w" "mongo_calls w1 = mongo_calls w"
    using rc1 by (auto simp: read_clock_def)
  have "good E w1 (case opn w1 of (Inl e, w2) \<Rightarrow> (Inl e, w2)
      | (Inr rows, w2) \<Rightarrow> (case read_clock E w2 of (stop, w3) \<Rightarrow>
             measure_loop E opn cnt n (lats @ [(stop - start) * 1000]) (cnt rows) w3))"
  proof (rule good_step [where f = opn])
    show "good E w1 (opn w1)" by (rule assms)
  next
    fix x w2 assume "opn w1 = (Inr x, w2)"
    obtain stop w3 where rc2: "read_clock E w2 = (stop, w3)" by (cases "read_clock E w2")
    have s2: "pg_calls w3 = pg_calls w2" "mongo_calls w3 = mongo_calls w2"
      using rc2 by (auto simp: read_clock_def)
    show "good E w2 (case read_clock E w2 of (stop, w3) \<Rightarrow>
             measure_loop E opn cnt n (lats @ [(stop - start) * 1000]) (cnt x) w3)"
      unfolding rc2 using good_shift [OF _ _ Suc [of w3]] s2 by simp
  qed
  then show ?case unfolding measure_loop.simps rc1
    using good_shift [of w w1] s1 by simp
qed

lemma good_run_engine:
  assumes "\<And>w. good E w (opn w)"
  shows "good E w (run_engine E opn cnt wr n w)"
  unfolding run_engine_def
  by (rule good_step [where f = "warmup opn wr"]) (simp_all add: good_warmup good_measure_loop assms)

lemma good_explain_both: "good E w (explain_both E b w)"
proof (cases b)
  case True
  have "good E w (case pg_query E w of (Inl e, w1) \<Rightarrow> (Inl e, w1)
         | (Inr rows, w1) \<Rightarrow>
             (case mongo_query E w1 of (Inl e, w2) \<Rightarrow> (Inl e, w2) | (Inr rows', w2) \<Rightarrow> (Inr (), w2)))"
  proof (rule good_step [where f = "pg_query E"])
    show "good E w (pg_query E w)" by (rule good_pg_query)
  next
    fix x w1
    show "good E w1 (case mongo_query E w1 of (Inl e, w2) \<Rightarrow> (Inl e, w2) | (Inr rows', w2) \<Rightarrow> (Inr (), w2))"
      by (rule good_step [where f = "mongo_query E"]) (simp_all add: good_mongo_query good_return)
  qed
  then show ?thesis using True by (simp add: explain_both_def)
next
  case False
  then show ?thesis by (simp add: explain_both_def good_return)
qed

lemma good_both_engines: "good E w (both_engines E cnt wr n b ns w)"
  unfolding both_engines_def
  apply (rule good_step [where f = "run_engine E (pg_query E) cnt wr n"])
   apply (rule good_run_engine, rule good_pg_query)
  apply (simp only: split_paired_all prod.case)
  apply (rule good_step [where f = "run_engine E (mongo_query E) cnt wr n"])
   apply (rule good_run_engine, rule good_mongo_query)
  apply (simp only: split_paired_all prod.case)
  apply (rule good_step [where f = "explain_both E b"])
   apply (rule good_explain_both)
  apply (simp add: good_return)
  done

lemma good_actor_test: "good E w (actor_test E wr n b ns w)"
  unfolding actor_test_def Let_def
  apply (rule good_step [where f = "run_engine E (pg_query E) length wr n"])
   apply (rule good_run_engine, rule good_pg_query)
  apply (simp only: split_paired_all prod.case)
  apply (rule good_step [where f = "mongo_query E"])
   apply (rule good_mongo_query)
  apply (rule good_step [where f = "run_engine E (mongo_query E) length wr n"])
   apply (rule good_run_engine, rule good_mongo_query)
  apply (simp only: split_paired_all prod.case)
  apply (rule good_step [where f = "explain_both E b"])
   apply (rule good_explain_both)
  apply (simp add: good_return)
  done

lemma good_deep_go:
  "good E w (case py_int mid of Inl e \<Rightarrow> (Inl e, w)
             | Inr i \<Rightarrow> both_engines E cnt wr n b ns w)"
  by (cases "py_int mid") (simp_all add: good_return good_both_engines)

lemma good_deep_fetch_test: "good E w (deep_fetch_test E mid wr n b ns w)"
proof (cases "truthy mid")
  case True
  then show ?thesis by (simp add: deep_fetch_test_def good_deep_go)
next
  case False
  have "good E w (case pg_query E w of (Inl e, w1) \<Rightarrow> (Inl e, w1)
     | (Inr rows, w1) \<Rightarrow> (case rows of
          [] \<Rightarrow> (Inr (Returned (Error400 ''No movies found in PostgreSQL'')), w1)
        | i # rest \<Rightarrow>
           (case mongo_query E w1 of
              (Inl e, w2) \<Rightarrow> (Inl e, w2)
            | (Inr rows', w2) \<Rightarrow> (case rows' of
                 [] \<Rightarrow> (Inr (Returned (Error400 ''No movies found in MongoDB'')), w2)
               | j # rest' \<Rightarrow>
                  (case py_int (JInt i) of Inl e \<Rightarrow> (Inl e, w2)
                   | Inr i' \<Rightarrow> both_engines E (\<lambda>rows. if rows = [] then 0 else (1::nat)) wr n b
                       (ns @ [NoteUsingMovie (JInt i)]) w2)))))"
  proof (rule good_step [where f = "pg_query E"])
    show "good E w (pg_query E w)" by (rule good_pg_query)
  next
    fix x w1
    show "good E w1 (case x of
          [] \<Rightarrow> (Inr (Returned (Error400 ''No movies found in PostgreSQL'')), w1)
        | i # rest \<Rightarrow>
           (case mongo_query E w1 of
              (Inl e, w2) \<Rightarrow> (Inl e, w2)
            | (Inr rows', w2) \<Rightarrow> (case rows' of
                 [] \<Rightarrow> (Inr (Returned (Error400 ''No movies found in MongoDB'')), w2)
               | j # rest' \<Rightarrow>
                  (case py_int (JInt i) of Inl e \<Rightarrow> (Inl e, w2)
                   | Inr i' \<Rightarrow> both_engines E (\<lambda>rows. if rows = [] then 0 else (1::nat)) wr n b
                       (ns @ [NoteUsingMovie (JInt i)]) w2))))"
    proof (cases x)
      case Nil
      then show ?thesis by (simp add: good_return)
    next
      case (Cons i rest)
      show ?thesis unfolding Cons list.case
      proof (rule good_step [where f = "mongo_query E"])
        show "good E w1 (mongo_query E w1)" by (rule good_mongo_query)
      next
        fix y w2
        show "good E w2 (case y of
                 [] \<Rightarrow> (Inr (Returned (Error400 ''No movies found in MongoDB'')), w2)
               | j # rest' \<Rightarrow>
                  (case py_int (JInt i) of Inl e \<Rightarrow> (Inl e, w2)
                   | Inr i' \<Rightarrow> both_engines E (\<lambda>rows. if rows = [] then 0 else (1::nat)) wr n b
                       (ns @ [NoteUsingMovie (JInt i)]) w2))"
          by (cases y) (simp_all add: good_return good_both_engines)
      qed
    qed
  qed
  moreover have "deep_fetch_test E mid wr n b ns w = (case pg_query E w of (Inl e, w1) \<Rightarrow> (Inl e, w1)
     | (Inr rows, w1) \<Rightarrow> (case rows of
          [] \<Rightarrow> (Inr (Returned (Error400 ''No movies found in PostgreSQL'')), w1)
        | i # rest \<Rightarrow>
           (case mongo_query E w1 of
              (Inl e, w2) \<Rightarrow> (Inl e, w2)
            | (Inr rows', w2) \<Rightarrow> (case rows' of
                 [] \<Rightarrow> (Inr (Returned (Error400 ''No movies found in MongoDB'')), w2)
               | j # rest' \<Rightarrow>
                  (case py_int (JInt i) of Inl e \<Rightarrow> (Inl e, w2)
                   | Inr i' \<Rightarrow> both_engines E (\<lambda>rows. if rows = [] then 0 else (1::nat)) wr n b
                       (ns @ [NoteUsingMovie (JInt i)]) w2)))))"
    using False
    by (auto simp: deep_fetch_test_def split: prod.splits sum.splits list.splits)
  ultimately show ?thesis by simp
qed

lemma good_run_test: "good E (close_cursor w) res \<Longrightarrow> good E w res"
  by (rule good_shift [of _ "close_cursor w"]) (simp_all add: close_cursor_def)

lemma good_run_test_all: "good E w (run_test E data p w)"
  unfolding run_test_def Let_def
  by (simp add: good_both_engines good_actor_test good_deep_fetch_test good_return close_cursor_def)

text \<open>
  C2 (as amended). A benchmark run is all or nothing: if any call to either engine made
  during the run raises, the handler's single exception clause answers with status 500
  and that engine's error, and the response carries statistics for neither engine.
\<close>

theorem benchmark_engine_error_aborts_run:
  assumes run: "benchmark_run E data w = (resp, w')"
    and failed: "(\<exists>k. pg_calls w \<le> k \<and> k < pg_calls w' \<and> isl (pg_engine E k))
               \<or> (\<exists>k. mongo_calls w \<le> k \<and> k < mongo_calls w' \<and> isl (mongo_engine E k))"
  shows "\<exists>msg. resp = Error500 (EngineError msg)"
proof -
  have nok: "\<not> calls_ok E w w'" using failed by (auto simp: calls_ok_def)
  have same: "\<And>v. pg_calls v = pg_calls w \<Longrightarrow> mongo_calls v = mongo_calls w \<Longrightarrow> w' \<noteq> v"
    using nok calls_ok_same by blast
  show ?thesis
  proof (cases "data = []")
    case True
    then show ?thesis using run same [of w] by (simp add: benchmark_run_def)
  next
    case ne: False
    show ?thesis
    proof (cases "parse_params data")
      case (Inl e)
      then show ?thesis using run ne same [of w] by (simp add: benchmark_run_def)
    next
      case (Inr p)
      show ?thesis
      proof (cases "escape_ok (get_or data ''term'' (JStr ''Toy Story''))
                \<and> escape_ok (get_or data ''genre_term'' (JStr ''Animation''))
                \<and> escape_ok (get_or data ''actor_term'' (JStr ''Tom Hanks''))")
        case False
        then show ?thesis using run ne Inr same [of w] by (auto simp: benchmark_run_def)
      next
        case True
        define w1 where "w1 = w\<lparr>open_cursors := Suc (open_cursors w)\<rparr>"
        obtain r w2 where rt: "run_test E data p w1 = (r, w2)" by (cases "run_test E data p w1")
        have g: "good E w (r, w2)"
          using good_shift [of w w1 E "run_test E data p w1"] good_run_test_all [of E w1 data p] rt
          by (simp add: w1_def)
        have w': "pg_calls w' = pg_calls w2 \<and> mongo_calls w' = mongo_calls w2
                  \<and> (\<forall>e. r = Inl e \<longrightarrow> resp = Error500 e)"
          using run ne Inr True rt
          by (auto simp: benchmark_run_def w1_def Let_def close_cursor_def
              split: sum.splits outcome.splits)
        have "\<not> calls_ok E w w2" using nok w' by (simp add: calls_ok_def)
        then obtain msg where "r = Inl (EngineError msg)" using g by (auto simp: good_def)
        then show ?thesis using w' by simp
      qed
    qed
  qed
qed

lemma mongo_down_run:
  "benchmark_run mongo_down_env [(''runs'', JInt 5)] idle_world
     = (Error500 (EngineError ''mongo down''),
        \<lparr>pg_calls = 8, mongo_calls = 1, clock_reads = 10, open_cursors = 1\<rparr>)"
  by (simp add: benchmark_run_def parse_params_def get_or_def run_test_def both_engines_def
      run_engine_def pg_query_def mongo_query_def read_clock_def mongo_down_env_def idle_world_def
      numeral_eq_Suc Let_def)

theorem benchmark_engine_error_aborts_run_witness:
  "isl (pg_engine pg_down_env 4)
   \<and> fst (benchmark_run pg_down_env [(''test_type'', JStr ''genre''), (''runs'', JInt 5)] idle_world)
       = Error500 (EngineError ''pg down'')"
proof -
  have r: "benchmark_run pg_down_env [(''test_type'', JStr ''genre''), (''runs'', JInt 5)] idle_world
     = (Error500 (EngineError ''pg down''),
        \<lparr>pg_calls = 5, mongo_calls = 0, clock_reads = 3, open_cursors = 1\<rparr>)"
    by (simp add: benchmark_run_def parse_params_def get_or_def run_test_def both_engines_def
      run_engine_def pg_query_def mongo_query_def read_clock_def pg_down_env_def idle_world_def
      numeral_eq_Suc Let_def)
  have f: "(\<exists>k. pg_calls idle_world \<le> k
              \<and> k < pg_calls \<lparr>pg_calls = 5, mongo_calls = 0, clock_reads = 3, open_cursors = 1\<rparr>
              \<and> isl (pg_engine pg_down_env k))
         \<or> (\<exists>k. mongo_calls idle_world \<le> k
              \<and> k < mongo_calls \<lparr>pg_calls = 5, mongo_calls = 0, clock_reads = 3, open_cursors = 1\<rparr>
              \<and> isl (mongo_engine pg_down_env k))"
    by (rule disjI1, rule exI [of _ 4]) (simp add: pg_down_env_def idle_world_def)
  show ?thesis using benchmark_engine_error_aborts_run [OF r f] r
    by (simp add: pg_down_env_def)
qed

text \<open>
  The document engine raises on its first call while every relational call succeeds: the
  response is the error alone, without the relational statistics.
\<close>

theorem benchmark_partial_failure_counterexample:
  "fst (benchmark_run mongo_down_env [(''runs'', JInt 5)] idle_world) = Error500 (EngineError ''mongo down'')
   \<and> pg_engine mongo_down_env 0 = Inr [1] \<and> pg_engine mongo_down_env 7 = Inr [1]"
  using mongo_down_run by (simp add: mongo_down_env_def)

text \<open>
  C9. The cursor opened at the start of a run stays open when the \<^verbatim>\<open>deep_fetch\<close>
  branch returns its 400 response for an empty store and when an engine call raises;
  the unknown-test-type branch closes it before returning.
\<close>

theorem benchmark_cursor_not_released:
  "benchmark_run empty_store_env [(''test_type'', JStr ''deep_fetch'')] idle_world
     = (Error400 ''No movies found in PostgreSQL'',
        \<lparr>pg_calls = 1, mongo_calls = 0, clock_reads = 0, open_cursors = 1\<rparr>)
   \<and> open_cursors (snd (benchmark_run mongo_down_env [(''runs'', JInt 5)] idle_world)) = 1
   \<and> benchmark_run empty_store_env [(''test_type'', JStr ''nonsense'')] idle_world
     = (Error400 ''Unknown test_type'', idle_world)"
proof -
  have a: "benchmark_run empty_store_env [(''test_type'', JStr ''deep_fetch'')] idle_world
     = (Error400 ''No movies found in PostgreSQL'',
        \<lparr>pg_calls = 1, mongo_calls = 0, clock_reads = 0, open_cursors = 1\<rparr>)"
    by (simp add: benchmark_run_def parse_params_def get_or_def run_test_def deep_fetch_test_def
      pg_query_def empty_store_env_def idle_world_def Let_def)
  have b: "benchmark_run empty_store_env [(''test_type'', JStr ''nonsense'')] idle_world
     = (Error400 ''Unknown test_type'', idle_world)"
    by (simp add: benchmark_run_def parse_params_def get_or_def run_test_def close_cursor_def
      idle_world_def Let_def)
  show ?thesis using a b mongo_down_run by simp
qed

subsection \<open>The document strategy's actor step\<close>

text \<open>
  C6. When the actor filter is present and the credits lookup yields no identifier,
  \<^verbatim>\<open>search_mongo\<close> returns the empty list and the only operations it has performed are the
  two reads of the credits collection: no aggregation pipeline is run.
\<close>

theorem search_mongo_actor_short_circuit:
  assumes "truthy_str actor"
    and "fst (resolve_actor regex db (the actor)) = []"
  shows "fst (search_mongo regex db genre actor year_start year_end sort_by limit title) = Inr []
       \<and> snd (search_mongo regex db genre actor year_start year_end sort_by limit title)
           = snd (resolve_actor regex db (the actor))
       \<and> (\<forall>p. Aggregate p \<notin> set (snd (search_mongo regex db genre actor year_start year_end sort_by limit title)))"
proof -
  obtain ids ops where r: "resolve_actor regex db (the actor) = (ids, ops)"
    by (cases "resolve_actor regex db (the actor)")
  have ids: "ids = []" using assms(2) r by simp
  have ops: "ops = [FindOneCredit, FindCredits
      (case find_one_cast_exists db of
               Some (CreditDoc i (Some (CastList names))) \<Rightarrow> CastNameRegex (the actor)
             | _ \<Rightarrow> CastRegex (the actor))]"
    using r by (simp add: resolve_actor_def Let_def)
  have "search_mongo regex db genre actor year_start year_end sort_by limit title = (Inr [], ops)"
    using assms(1) r ids by (simp add: search_mongo_def)
  then show ?thesis using r ops by simp
qed

theorem search_mongo_actor_short_circuit_witness:
  "truthy_str (Some ''zzz'')
   \<and> fst (resolve_actor contains_ci (denormalise sample_rel) ''zzz'') = []
   \<and> fst (search_mongo contains_ci (denormalise sample_rel) None (Some ''zzz'') None None ''rating'' 100 None) = Inr []"
proof -
  have a: "truthy_str (Some ''zzz'')" by (simp add: truthy_str_def)
  have b: "fst (resolve_actor contains_ci (denormalise sample_rel) (the (Some ''zzz''))) = []"
    by (simp add: resolve_actor_def find_one_cast_exists_def find_credits_def denormalise_def
        sample_rel_def cast_of_def lower_def Let_def)
  show ?thesis
    using search_mongo_actor_short_circuit [OF a b, of None None None "''rating''" 100 None] a b
    by simp
qed

subsection \<open>The year range\<close>

lemma build_pg_query_one_bound:
  "year_start = None \<or> year_end = None \<Longrightarrow>
   build_pg_query genre actor year_start year_end sort_by limit title
     = build_pg_query genre actor None None sort_by limit title"
  by (auto simp: build_pg_query_def truthy_int_def)

lemma build_pipeline_one_bound:
  "year_start = None \<or> year_end = None \<Longrightarrow>
   build_pipeline genre ids year_start year_end sort_by limit title
     = build_pipeline genre ids None None sort_by limit title"
  by (auto simp: build_pipeline_def match_conditions_def truthy_int_def)

text \<open>
  C10. With only one of the two year bounds supplied, both strategies behave exactly as
  with no year bound at all: the relational query has no year condition and the pipeline
  has no release-date condition.
\<close>

theorem year_filter_needs_both_bounds:
  assumes "year_start = None \<or> year_end = None"
  shows "search_postgres ilike rdb genre actor year_start year_end sort_by limit title
           = search_postgres ilike rdb genre actor None None sort_by limit title
       \<and> search_mongo regex ddb genre actor year_start year_end sort_by limit title
           = search_mongo regex ddb genre actor None None sort_by limit title
       \<and> (\<forall>a b. YearBetween a b \<notin> set (q_where (build_pg_query genre actor year_start year_end sort_by limit title)))
       \<and> (\<forall>lo hi. \<forall>st \<in> set (build_pipeline genre ids year_start year_end sort_by limit title).
             \<forall>cs. st = Match cs \<longrightarrow> MReleaseDate lo hi \<notin> set cs)"
proof -
  have 1: "search_postgres ilike rdb genre actor year_start year_end sort_by limit title
           = search_postgres ilike rdb genre actor None None sort_by limit title"
    by (simp add: search_postgres_def build_pg_query_one_bound [OF assms])
  have 2: "search_mongo regex ddb genre actor year_start year_end sort_by limit title
           = search_mongo regex ddb genre actor None None sort_by limit title"
    by (simp only: search_mongo_def build_pipeline_one_bound [OF assms])
  have 3: "\<forall>a b. YearBetween a b \<notin> set (q_where (build_pg_query genre actor year_start year_end sort_by limit title))"
    unfolding build_pg_query_one_bound [OF assms]
    by (simp add: build_pg_query_def truthy_int_def)
  have 4: "\<forall>lo hi. \<forall>st \<in> set (build_pipeline genre ids year_start year_end sort_by limit title).
             \<forall>cs. st = Match cs \<longrightarrow> MReleaseDate lo hi \<notin> set cs"
    unfolding build_pipeline_one_bound [OF assms]
    by (auto simp: build_pipeline_def match_conditions_def truthy_int_def Let_def
        split: option.splits if_splits)
  show ?thesis using 1 2 3 4 by blast
qed


theorem year_filter_needs_both_bounds_witness:
  "(Some (1990::int) = None \<or> (None :: int option) = None)
   \<and> map_sum id (map rr_movie_id)
        (search_postgres plain_ilike sample_rel None None (Some 1990) None ''popularity'' 100 None)
       = Inr [Some 1, Some 3, Some 2]
   \<and> search_postgres plain_ilike sample_rel None None (Some 1990) None ''popularity'' 100 None
       = search_postgres plain_ilike sample_rel None None None None ''popularity'' 100 None"
proof -
  have h: "Some (1990::int) = None \<or> (None :: int option) = None" by simp
  have e: "map_sum id (map rr_movie_id)
        (search_postgres plain_ilike sample_rel None None None None ''popularity'' 100 None)
       = Inr [Some 1, Some 3, Some 2]"
    by code_simp
  show ?thesis
    using year_filter_needs_both_bounds [OF h, of plain_ilike sample_rel None None "''popularity''" 100 None]
      e h
    by simp
qed

subsection \<open>Year text on the interactive paths\<close>





subsection \<open>What the two strategies compute\<close>

lemma set_insert_by: "set (insert_by le x ys) = insert x (set ys)"
  by (induction ys) auto

lemma length_insert_by: "length (insert_by le x ys) = Suc (length ys)"
  by (induction ys) auto

lemma set_stable_sort: "set (stable_sort le xs) = set xs"
  by (induction xs) (simp_all add: stable_sort_def set_insert_by)

lemma length_stable_sort: "length (stable_sort le xs) = length xs"
  by (induction xs) (simp_all add: stable_sort_def length_insert_by)

lemma fixed_stages:
  "run_stages regex db [LookupRatings, AddFields, ProjectOut, Sort mode, Limit limit]
     (map (\<lambda>d. AggDoc d None None None) ds)
   = (if limit \<le> 0 then Inl (EngineError ''the limit must be positive'')
      else Inr (take (nat limit) (stable_sort (mongo_before mode) (map (enrich db) ds))))"
proof -
  have 1: "run_stage regex db LookupRatings (map (\<lambda>d. AggDoc d None None None) ds)
           = Inr (map (\<lambda>d. AggDoc d (Some (doc_ratings db d)) None None) ds)"
    by (simp add: doc_ratings_def)
  have 2: "run_stage regex db AddFields (map (\<lambda>d. AggDoc d (Some (doc_ratings db d)) None None) ds)
           = Inr (map (\<lambda>d. AggDoc d (Some (doc_ratings db d))
                  (Some (case avg_opt (rating_values (doc_ratings db d)) of None \<Rightarrow> 0 | Some v \<Rightarrow> v))
                  (Some (length (doc_ratings db d)))) ds)"
    by (simp add: list_ex_iff rating_values_def comp_def)
  have 3: "run_stage regex db ProjectOut (map (\<lambda>d. AggDoc d (Some (doc_ratings db d))
                  (Some (case avg_opt (rating_values (doc_ratings db d)) of None \<Rightarrow> 0 | Some v \<Rightarrow> v))
                  (Some (length (doc_ratings db d)))) ds)
           = Inr (map (enrich db) ds)"
    by (simp add: enrich_def comp_def)
  show ?thesis
    unfolding run_stages.simps 1 2 3 sum.case by simp
qed

lemma aggregate_pipeline:
  "aggregate regex db (build_pipeline genre ids year_start year_end sort_by limit title)
   = (if limit \<le> 0 then Inl (EngineError ''the limit must be positive'')
      else Inr (take (nat limit)
             (stable_sort (mongo_before (if sort_by = ''rating'' then ByRating else ByPopularity))
               (map (enrich db)
                 (filter (doc_matches regex (match_conditions genre ids year_start year_end title))
                   (mongo_movies_col db))))))"
proof (cases "match_conditions genre ids year_start year_end title = []")
  case True
  have p: "build_pipeline genre ids year_start year_end sort_by limit title
      = [LookupRatings, AddFields, ProjectOut,
         Sort (if sort_by = ''rating'' then ByRating else ByPopularity), Limit limit]"
    using True by (simp add: build_pipeline_def)
  have f: "filter (doc_matches regex []) (mongo_movies_col db) = mongo_movies_col db"
    by (simp add: doc_matches_def)
  show ?thesis unfolding aggregate_def p fixed_stages True f ..
next
  case False
  have p: "build_pipeline genre ids year_start year_end sort_by limit title
      = Match (match_conditions genre ids year_start year_end title)
        # [LookupRatings, AddFields, ProjectOut,
         Sort (if sort_by = ''rating'' then ByRating else ByPopularity), Limit limit]"
    using False by (simp add: build_pipeline_def)
  have m: "run_stage regex db (Match (match_conditions genre ids year_start year_end title))
            (map (\<lambda>d. AggDoc d None None None) (mongo_movies_col db))
         = Inr (map (\<lambda>d. AggDoc d None None None)
             (filter (doc_matches regex (match_conditions genre ids year_start year_end title))
                   (mongo_movies_col db)))"
    by (simp add: filter_map comp_def doc_matches_def [abs_def])
  have "aggregate regex db (build_pipeline genre ids year_start year_end sort_by limit title)
      = run_stages regex db [LookupRatings, AddFields, ProjectOut,
         Sort (if sort_by = ''rating'' then ByRating else ByPopularity), Limit limit]
         (map (\<lambda>d. AggDoc d None None None)
             (filter (doc_matches regex (match_conditions genre ids year_start year_end title))
                   (mongo_movies_col db)))"
    unfolding aggregate_def p by (subst run_stages.simps(2)) (simp only: m sum.case)
  then show ?thesis unfolding fixed_stages .
qed

lemma search_mongo_eq:
  "fst (search_mongo regex db genre actor year_start year_end sort_by limit title)
   = (if actor_ids regex db actor = Some [] then Inr []
      else if limit \<le> 0 then Inl (EngineError ''the limit must be positive'')
      else Inr (map mongo_to_movie (take (nat limit)
             (stable_sort (mongo_before (if sort_by = ''rating'' then ByRating else ByPopularity))
               (map (enrich db) (mongo_matching regex db genre actor year_start year_end title))))))"
proof (cases "truthy_str actor")
  case True
  obtain ids ops where r: "resolve_actor regex db (the actor) = (ids, ops)"
    by (cases "resolve_actor regex db (the actor)")
  show ?thesis using True r
    by (simp add: search_mongo_def actor_ids_def mongo_matching_def aggregate_pipeline Let_def)
next
  case False
  then show ?thesis
    by (simp add: search_mongo_def actor_ids_def mongo_matching_def aggregate_pipeline Let_def)
qed

lemma pg_groups_eq:
  "pg_groups ilike db q
   = map (\<lambda>m. group_row m (filter (\<lambda>j. list_all (cond_holds ilike m j) (q_where q))
                              (joined_rows db (q_joins q) m)))
       (pg_matching ilike db q)"
proof -
  have "\<And>ms. concat (map (\<lambda>m.
       (let js = filter (\<lambda>j. list_all (cond_holds ilike m j) (q_where q))
                   (joined_rows db (q_joins q) m)
        in if js = [] then [] else [group_row m js])) ms)
     = map (\<lambda>m. group_row m (filter (\<lambda>j. list_all (cond_holds ilike m j) (q_where q))
                              (joined_rows db (q_joins q) m)))
       (filter (pg_matches ilike db q) ms)"
  proof -
    fix ms show "?thesis ms" by (induction ms) (simp_all add: pg_matches_def Let_def)
  qed
  then show ?thesis by (simp add: pg_groups_def pg_matching_def)
qed

lemma search_postgres_eq:
  "search_postgres ilike db genre actor year_start year_end sort_by limit title
   = (if limit < 0 then Inl (EngineError ''LIMIT must not be negative'')
      else Inr (map pg_to_movie (take (nat limit)
             (stable_sort (pg_before (if sort_by = ''rating'' then ByRating else ByPopularity))
               (pg_groups ilike db
                  (build_pg_query genre actor year_start year_end sort_by limit title))))))"
  by (simp add: search_postgres_def pg_execute_def build_pg_query_def Let_def split: prod.splits)

lemma avg_opt_nonneg: "\<forall>v \<in> set vs. 0 \<le> v \<Longrightarrow> avg_opt vs = Some a \<Longrightarrow> 0 \<le> a"
  by (auto simp: avg_opt_def sum_list_nonneg split: if_splits)

lemma coalesce_avg_nonneg:
  "\<forall>v \<in> set vs. 0 \<le> v \<Longrightarrow> 0 \<le> (case avg_opt vs of None \<Rightarrow> 0 | Some a \<Rightarrow> a)"
  by (cases "avg_opt vs") (simp_all add: avg_opt_nonneg)

lemma joined_rating_in:
  "j \<in> set (joined_rows db js m) \<Longrightarrow> j_rating j = Some r
   \<Longrightarrow> r \<in> set (ratings db) \<and> r_movie_id r = m_id m"
  by (auto simp: joined_rows_def left_join_def split: if_splits)

lemma group_row_avg_nonneg:
  assumes "\<forall>j \<in> set js. \<forall>r. j_rating j = Some r \<longrightarrow> 0 \<le> r_rating r"
  shows "0 \<le> g_avg (group_row m js)"
proof -
  have "\<forall>v \<in> set (map r_rating (concat (map (\<lambda>j. case j_rating j of None \<Rightarrow> [] | Some r \<Rightarrow> [r]) js))). 0 \<le> v"
    using assms by (auto split: option.splits)
  then show ?thesis
    unfolding group_row_def Let_def pg_row.sel by (rule coalesce_avg_nonneg)
qed

lemma group_row_no_ratings:
  assumes "\<forall>j \<in> set js. j_rating j = None"
  shows "g_avg (group_row m js) = 0 \<and> g_count (group_row m js) = 0"
proof -
  have "concat (map (\<lambda>j. case j_rating j of None \<Rightarrow> [] | Some r \<Rightarrow> [r]) js) = []"
    using assms by (induction js) auto
  then show ?thesis by (simp add: group_row_def avg_opt_def)
qed

lemma enrich_avg_nonneg:
  assumes "\<forall>r \<in> set (mongo_ratings_col db). \<forall>v. rd_rating r = Some v \<longrightarrow> 0 \<le> v"
  shows "0 \<le> rr_avg_rating (mongo_to_movie (enrich db d))"
proof -
  have "\<forall>v \<in> set (rating_values (doc_ratings db d)). 0 \<le> v"
    using assms by (auto simp: rating_values_def doc_ratings_def split: option.splits)
  then show ?thesis
    by (simp add: mongo_to_movie_def enrich_def Let_def coalesce_avg_nonneg)
qed

lemma enrich_no_ratings:
  assumes "\<forall>r \<in> set (mongo_ratings_col db). Some (rd_movie_id r) \<noteq> d_id d"
  shows "rr_movie_id (mongo_to_movie (enrich db d)) = d_id d
       \<and> rr_avg_rating (mongo_to_movie (enrich db d)) = 0
       \<and> rr_num_ratings (mongo_to_movie (enrich db d)) = 0"
proof -
  have "doc_ratings db d = []" using assms by (auto simp: doc_ratings_def filter_empty_conv)
  then show ?thesis
    by (simp add: mongo_to_movie_def enrich_def Let_def rating_values_def avg_opt_def)
qed

lemma pg_rows_nonneg:
  assumes "\<forall>r \<in> set (ratings db). 0 \<le> r_rating r"
    and "search_postgres ilike db genre actor year_start year_end sort_by limit title = Inr rows"
    and "row \<in> set rows"
  shows "0 \<le> rr_avg_rating row"
proof -
  let ?q = "build_pg_query genre actor year_start year_end sort_by limit title"
  from assms(2,3) obtain g where g: "g \<in> set (pg_groups ilike db ?q)" "row = pg_to_movie g"
    by (auto simp: search_postgres_eq set_stable_sort split: if_splits dest!: in_set_takeD)
  from g(1) obtain m where m: "g = group_row m (filter (\<lambda>j. list_all (cond_holds ilike m j) (q_where ?q))
                              (joined_rows db (q_joins ?q) m))"
    by (auto simp: pg_groups_eq)
  have "0 \<le> g_avg g" unfolding m
    by (rule group_row_avg_nonneg) (use assms(1) joined_rating_in in auto)
  then show ?thesis using g(2) by (simp add: pg_to_movie_def)
qed

lemma mongo_rows_nonneg:
  assumes "\<forall>r \<in> set (mongo_ratings_col db). \<forall>v. rd_rating r = Some v \<longrightarrow> 0 \<le> v"
    and "fst (search_mongo regex db genre actor year_start year_end sort_by limit title) = Inr rows"
    and "row \<in> set rows"
  shows "0 \<le> rr_avg_rating row"
proof -
  from assms(2,3) obtain d where "row = mongo_to_movie (enrich db d)"
    by (auto simp: search_mongo_eq set_stable_sort split: if_splits dest!: in_set_takeD)
  then show ?thesis using enrich_avg_nonneg [OF assms(1)] by simp
qed

lemma pg_zero_ratings_present:
  assumes m: "m \<in> set (pg_matching ilike db (build_pg_query genre actor year_start year_end sort_by limit title))"
    and nor: "\<forall>r \<in> set (ratings db). r_movie_id r \<noteq> m_id m"
    and lim: "0 \<le> limit"
      "length (pg_matching ilike db (build_pg_query genre actor year_start year_end sort_by limit title)) \<le> nat limit"
  shows "\<exists>rows row. search_postgres ilike db genre actor year_start year_end sort_by limit title = Inr rows
           \<and> row \<in> set rows \<and> rr_movie_id row = Some (m_id m)
           \<and> rr_avg_rating row = 0 \<and> rr_num_ratings row = 0"
proof -
  let ?q = "build_pg_query genre actor year_start year_end sort_by limit title"
  let ?mode = "if sort_by = ''rating'' then ByRating else ByPopularity"
  let ?g = "group_row m (filter (\<lambda>j. list_all (cond_holds ilike m j) (q_where ?q))
                              (joined_rows db (q_joins ?q) m))"
  have len: "length (stable_sort (pg_before ?mode) (pg_groups ilike db ?q)) \<le> nat limit"
    using lim(2) by (simp add: length_stable_sort pg_groups_eq)
  have res: "search_postgres ilike db genre actor year_start year_end sort_by limit title
      = Inr (map pg_to_movie (stable_sort (pg_before ?mode) (pg_groups ilike db ?q)))"
    using lim(1) len by (simp add: search_postgres_eq)
  have gin: "?g \<in> set (pg_groups ilike db ?q)" using m by (auto simp: pg_groups_eq)
  have "\<forall>j \<in> set (filter (\<lambda>j. list_all (cond_holds ilike m j) (q_where ?q))
                              (joined_rows db (q_joins ?q) m)). j_rating j = None"
  proof
    fix j assume "j \<in> set (filter (\<lambda>j. list_all (cond_holds ilike m j) (q_where ?q))
                              (joined_rows db (q_joins ?q) m))"
    then have jin: "j \<in> set (joined_rows db (q_joins ?q) m)" by simp
    show "j_rating j = None"
    proof (cases "j_rating j")
      case None then show ?thesis .
    next
      case (Some r)
      then show ?thesis using joined_rating_in [OF jin Some] nor by auto
    qed
  qed
  then have z: "g_avg ?g = 0 \<and> g_count ?g = 0" by (rule group_row_no_ratings)
  have gm: "g_movie ?g = m" by (simp add: group_row_def Let_def)
  have "pg_to_movie ?g \<in> set (map pg_to_movie (stable_sort (pg_before ?mode) (pg_groups ilike db ?q)))"
    using gin by (simp add: set_stable_sort)
  moreover have "rr_movie_id (pg_to_movie ?g) = Some (m_id m) \<and> rr_avg_rating (pg_to_movie ?g) = 0
      \<and> rr_num_ratings (pg_to_movie ?g) = 0"
    using z gm by (simp add: pg_to_movie_def)
  ultimately show ?thesis using res by blast
qed

lemma mongo_zero_ratings_present:
  assumes d: "d \<in> set (mongo_matching regex db genre actor year_start year_end title)"
    and nor: "\<forall>r \<in> set (mongo_ratings_col db). Some (rd_movie_id r) \<noteq> d_id d"
    and lim: "0 < limit"
      "length (mongo_matching regex db genre actor year_start year_end title) \<le> nat limit"
  shows "\<exists>rows row. fst (search_mongo regex db genre actor year_start year_end sort_by limit title) = Inr rows
           \<and> row \<in> set rows \<and> rr_movie_id row = d_id d
           \<and> rr_avg_rating row = 0 \<and> rr_num_ratings row = 0"
proof -
  let ?mode = "if sort_by = ''rating'' then ByRating else ByPopularity"
  let ?xs = "stable_sort (mongo_before ?mode)
               (map (enrich db) (mongo_matching regex db genre actor year_start year_end title))"
  have ne: "actor_ids regex db actor \<noteq> Some []"
    using d by (auto simp: mongo_matching_def split: if_splits)
  have len: "length ?xs \<le> nat limit" using lim(2) by (simp add: length_stable_sort)
  have res: "fst (search_mongo regex db genre actor year_start year_end sort_by limit title)
      = Inr (map mongo_to_movie ?xs)"
    using ne lim(1) len by (simp add: search_mongo_eq)
  have "mongo_to_movie (enrich db d) \<in> set (map mongo_to_movie ?xs)"
    using d by (simp add: set_stable_sort)
  then show ?thesis using res enrich_no_ratings [OF nor] by blast
qed

lemma left_join_ne: "left_join xs \<noteq> []"
  by (simp add: left_join_def)

lemma display_genres_ne: "display_genres_of db m \<noteq> []"
proof -
  obtain x xs where l: "left_join (filter (\<lambda>mg. mg_movie_id mg = m_id m) (movie_genres db)) = x # xs"
    using left_join_ne by (cases "left_join (filter (\<lambda>mg. mg_movie_id mg = m_id m) (movie_genres db))") auto
  show ?thesis unfolding display_genres_of_def l
    by (cases x) (simp_all add: left_join_ne)
qed

lemma pg_matches_ex:
  "pg_matches ilike db q m
   = (\<exists>j \<in> set (joined_rows db (q_joins q) m). \<forall>c \<in> set (q_where q). cond_holds ilike m j c)"
  by (auto simp: pg_matches_def filter_empty_conv list_all_iff)

lemma joined_rows_ex:
  "(\<exists>j \<in> set (joined_rows db js m). P (j_genre j) (j_person j))
   = (\<exists>g \<in> set (if JoinGenres \<in> set js then map Some (genres_of db m) else [None]).
      \<exists>p \<in> set (if JoinPeople \<in> set js then map Some (cast_of db m) else [None]). P g p)"
proof -
  obtain r where r: "r \<in> set (left_join (filter (\<lambda>r. r_movie_id r = m_id m) (ratings db)))"
    using left_join_ne [of "filter (\<lambda>r. r_movie_id r = m_id m) (ratings db)"]
    by (meson last_in_set)
  obtain g2 where g2: "g2 \<in> set (display_genres_of db m)"
    using display_genres_ne [of db m] by (meson last_in_set)
  show ?thesis
  proof
    assume "\<exists>j \<in> set (joined_rows db js m). P (j_genre j) (j_person j)"
    then show "\<exists>g \<in> set (if JoinGenres \<in> set js then map Some (genres_of db m) else [None]).
      \<exists>p \<in> set (if JoinPeople \<in> set js then map Some (cast_of db m) else [None]). P g p"
      unfolding joined_rows_def by (auto split: if_splits)
  next
    assume "\<exists>g \<in> set (if JoinGenres \<in> set js then map Some (genres_of db m) else [None]).
      \<exists>p \<in> set (if JoinPeople \<in> set js then map Some (cast_of db m) else [None]). P g p"
    then obtain g p where gp: "g \<in> set (if JoinGenres \<in> set js then map Some (genres_of db m) else [None])"
      "p \<in> set (if JoinPeople \<in> set js then map Some (cast_of db m) else [None])" "P g p"
      by blast
    have "Joined r g2 g p \<in> set (joined_rows db js m)"
      unfolding joined_rows_def using r g2 gp(1,2)
      by (auto split: if_splits intro!: bexI [of _ r] bexI [of _ g2])
    then show "\<exists>j \<in> set (joined_rows db js m). P (j_genre j) (j_person j)"
      using gp(3) by force
  qed
qed


lemma build_pg_query_joins:
  "(JoinGenres \<in> set (q_joins (build_pg_query genre actor year_start year_end sort_by limit title)))
     = truthy_str genre"
  "(JoinPeople \<in> set (q_joins (build_pg_query genre actor year_start year_end sort_by limit title)))
     = truthy_str actor"
  by (simp_all add: build_pg_query_def)

lemma build_pg_query_where:
  "(\<forall>c \<in> set (q_where (build_pg_query genre actor year_start year_end sort_by limit title)).
       cond_holds ilike m j c)
   = ((truthy_str title \<longrightarrow> ilike (wrap_pct (the title)) (m_title m))
      \<and> (truthy_str genre \<longrightarrow>
            (case j_genre j of None \<Rightarrow> False | Some g \<Rightarrow> ilike (wrap_pct (the genre)) (genre_name g)))
      \<and> (truthy_str actor \<longrightarrow>
            (case j_person j of None \<Rightarrow> False | Some p \<Rightarrow> ilike (wrap_pct (the actor)) (person_name p)))
      \<and> (truthy_int year_start \<and> truthy_int year_end \<longrightarrow>
            (case m_released m of None \<Rightarrow> False
             | Some d \<Rightarrow> the year_start \<le> fst d \<and> fst d \<le> the year_end)))"
  by (auto simp: build_pg_query_def)

lemma pg_matches_filter:
  "pg_matches ilike db (build_pg_query genre actor year_start year_end sort_by limit title) m
   = pg_filter_holds ilike db genre actor year_start year_end title m"
proof -
  let ?q = "build_pg_query genre actor year_start year_end sort_by limit title"
  let ?P = "\<lambda>g p. (truthy_str title \<longrightarrow> ilike (wrap_pct (the title)) (m_title m))
      \<and> (truthy_str genre \<longrightarrow>
            (case g of None \<Rightarrow> False | Some g \<Rightarrow> ilike (wrap_pct (the genre)) (genre_name g)))
      \<and> (truthy_str actor \<longrightarrow>
            (case p of None \<Rightarrow> False | Some p \<Rightarrow> ilike (wrap_pct (the actor)) (person_name p)))
      \<and> (truthy_int year_start \<and> truthy_int year_end \<longrightarrow>
            (case m_released m of None \<Rightarrow> False
             | Some d \<Rightarrow> the year_start \<le> fst d \<and> fst d \<le> the year_end))"
  have "pg_matches ilike db ?q m
      = (\<exists>j \<in> set (joined_rows db (q_joins ?q) m). ?P (j_genre j) (j_person j))"
    unfolding pg_matches_ex build_pg_query_where ..
  also have "\<dots> = (\<exists>g \<in> set (if truthy_str genre then map Some (genres_of db m) else [None]).
      \<exists>p \<in> set (if truthy_str actor then map Some (cast_of db m) else [None]). ?P g p)"
    unfolding joined_rows_ex [where P = ?P] build_pg_query_joins ..
  also have "\<dots> = pg_filter_holds ilike db genre actor year_start year_end title m"
    by (cases "truthy_str genre"; cases "truthy_str actor")
       (auto simp: pg_filter_holds_def list_ex_iff)
  finally show ?thesis .
qed

lemma pg_matching_filter:
  "pg_matching ilike db (build_pg_query genre actor year_start year_end sort_by limit title)
   = filter (pg_filter_holds ilike db genre actor year_start year_end title) (movies db)"
  unfolding pg_matching_def by (rule filter_cong) (simp_all add: pg_matches_filter)

lemma mongo_matching_filter:
  "mongo_matching regex db genre actor year_start year_end title
   = filter (mongo_filter_holds regex db genre actor year_start year_end title) (mongo_movies_col db)"
proof (cases "actor_ids regex db actor = Some []")
  case True
  then have "truthy_str actor" "fst (resolve_actor regex db (the actor)) = []"
    by (auto simp: actor_ids_def split: if_splits)
  then have "\<And>d. \<not> mongo_filter_holds regex db genre actor year_start year_end title d"
    by (auto simp: mongo_filter_holds_def split: option.splits)
  then show ?thesis using True by (simp add: mongo_matching_def)
next
  case False
  have "doc_matches regex (match_conditions genre (actor_ids regex db actor) year_start year_end title) d
        = mongo_filter_holds regex db genre actor year_start year_end title d" for d
    using False
    by (auto simp: doc_matches_def match_conditions_def mongo_filter_holds_def actor_ids_def Let_def
             split: option.splits if_splits)
  then show ?thesis using False by (simp add: mongo_matching_def cong: filter_cong)
qed

text \<open>
  C5 (as amended). Every row either strategy returns carries an average rating and a rating count
  (neither is ever absent), and the count is never negative. The average is not negative
  provided no stored rating is negative. A movie of the store that passes the filter and
  has no ratings is returned by each strategy with average 0 and count 0 whenever the
  number of movies passing the filter does not exceed the limit; the ratings join does not
  drop it.
\<close>

theorem unrated_movie_kept_within_limit:
  "((\<forall>r \<in> set (ratings rdb). 0 \<le> r_rating r) \<longrightarrow>
      (\<forall>rows row. search_postgres ilike rdb genre actor year_start year_end sort_by limit title = Inr rows
            \<and> row \<in> set rows \<longrightarrow> 0 \<le> rr_avg_rating row \<and> 0 \<le> rr_num_ratings row))
   \<and> ((\<forall>r \<in> set (mongo_ratings_col ddb). \<forall>v. rd_rating r = Some v \<longrightarrow> 0 \<le> v) \<longrightarrow>
      (\<forall>rows row. fst (search_mongo regex ddb genre actor year_start year_end sort_by limit title) = Inr rows
            \<and> row \<in> set rows \<longrightarrow> 0 \<le> rr_avg_rating row \<and> 0 \<le> rr_num_ratings row))
   \<and> (\<forall>m. m \<in> set (movies rdb)
            \<and> pg_filter_holds ilike rdb genre actor year_start year_end title m
            \<and> (\<forall>r \<in> set (ratings rdb). r_movie_id r \<noteq> m_id m)
            \<and> 0 \<le> limit
            \<and> length (filter (pg_filter_holds ilike rdb genre actor year_start year_end title)
                        (movies rdb)) \<le> nat limit
          \<longrightarrow> (\<exists>rows row. search_postgres ilike rdb genre actor year_start year_end sort_by limit title = Inr rows
                 \<and> row \<in> set rows \<and> rr_movie_id row = Some (m_id m)
                 \<and> rr_avg_rating row = 0 \<and> rr_num_ratings row = 0))
   \<and> (\<forall>d. d \<in> set (mongo_movies_col ddb)
            \<and> mongo_filter_holds regex ddb genre actor year_start year_end title d
            \<and> (\<forall>r \<in> set (mongo_ratings_col ddb). Some (rd_movie_id r) \<noteq> d_id d)
            \<and> 0 < limit
            \<and> length (filter (mongo_filter_holds regex ddb genre actor year_start year_end title)
                        (mongo_movies_col ddb)) \<le> nat limit
          \<longrightarrow> (\<exists>rows row. fst (search_mongo regex ddb genre actor year_start year_end sort_by limit title) = Inr rows
                 \<and> row \<in> set rows \<and> rr_movie_id row = d_id d
                 \<and> rr_avg_rating row = 0 \<and> rr_num_ratings row = 0))"
proof (intro conjI allI impI)
  fix rows row
  assume "\<forall>r \<in> set (ratings rdb). 0 \<le> r_rating r"
    and "search_postgres ilike rdb genre actor year_start year_end sort_by limit title = Inr rows
            \<and> row \<in> set rows"
  then show "0 \<le> rr_avg_rating row" using pg_rows_nonneg by blast
next
  fix rows row
  assume "\<forall>r \<in> set (mongo_ratings_col ddb). \<forall>v. rd_rating r = Some v \<longrightarrow> 0 \<le> v"
    and "fst (search_mongo regex ddb genre actor year_start year_end sort_by limit title) = Inr rows
            \<and> row \<in> set rows"
  then show "0 \<le> rr_avg_rating row" using mongo_rows_nonneg by blast
next
  fix m
  assume a: "m \<in> set (movies rdb)
            \<and> pg_filter_holds ilike rdb genre actor year_start year_end title m
            \<and> (\<forall>r \<in> set (ratings rdb). r_movie_id r \<noteq> m_id m)
            \<and> 0 \<le> limit
            \<and> length (filter (pg_filter_holds ilike rdb genre actor year_start year_end title)
                        (movies rdb)) \<le> nat limit"
  have "m \<in> set (pg_matching ilike rdb
                    (build_pg_query genre actor year_start year_end sort_by limit title))"
    using a by (simp add: pg_matching_filter)
  moreover have "length (pg_matching ilike rdb
                    (build_pg_query genre actor year_start year_end sort_by limit title)) \<le> nat limit"
    using a by (simp add: pg_matching_filter)
  ultimately show "\<exists>rows row. search_postgres ilike rdb genre actor year_start year_end sort_by limit title = Inr rows
                 \<and> row \<in> set rows \<and> rr_movie_id row = Some (m_id m)
                 \<and> rr_avg_rating row = 0 \<and> rr_num_ratings row = 0"
    using a by (intro pg_zero_ratings_present) simp_all
next
  fix d
  assume a: "d \<in> set (mongo_movies_col ddb)
            \<and> mongo_filter_holds regex ddb genre actor year_start year_end title d
            \<and> (\<forall>r \<in> set (mongo_ratings_col ddb). Some (rd_movie_id r) \<noteq> d_id d)
            \<and> 0 < limit
            \<and> length (filter (mongo_filter_holds regex ddb genre actor year_start year_end title)
                        (mongo_movies_col ddb)) \<le> nat limit"
  have "d \<in> set (mongo_matching regex ddb genre actor year_start year_end title)"
    using a by (simp add: mongo_matching_filter)
  moreover have "length (mongo_matching regex ddb genre actor year_start year_end title) \<le> nat limit"
    using a by (simp add: mongo_matching_filter)
  ultimately show "\<exists>rows row. fst (search_mongo regex ddb genre actor year_start year_end sort_by limit title) = Inr rows
                 \<and> row \<in> set rows \<and> rr_movie_id row = d_id d
                 \<and> rr_avg_rating row = 0 \<and> rr_num_ratings row = 0"
    using a by (intro mongo_zero_ratings_present) simp_all
qed simp_all

lemma sample_pg_filter:
  "filter (pg_filter_holds plain_ilike sample_rel (Some ''dra'') None None None None) (movies sample_rel)
     = [Movie 2 ''Heat'' (Some (1995, 12, 15)) None, Movie 3 ''Metropolis'' (Some (1927, 1, 10)) (Some 5)]"
  by code_simp

lemma sample_mongo_filter:
  "filter (mongo_filter_holds contains_ci (denormalise sample_rel) (Some ''dra'') None None None None)
      (mongo_movies_col (denormalise sample_rel))
     = [MovieDoc (Some 2) (Some ''Heat'') (Some ''Heat'') (Some ''1995-12-15'') None
          (Some (GenresList [GenreDoc (Some ''Drama'')])),
        MovieDoc (Some 3) (Some ''Metropolis'') (Some ''Metropolis'') (Some ''1927-01-10'') (Some 5)
          (Some (GenresList [GenreDoc (Some ''Drama'')]))]"
  by code_simp

lemma sample_pg_search:
  "search_postgres plain_ilike sample_rel (Some ''dra'') None None None ''rating'' 2 None
     = Inr [ResultRow (Some 3) (Some ''Metropolis'') (Some (PgDate (1927, 1, 10))) 5 7 1 ''Drama'',
            ResultRow (Some 2) (Some ''Heat'') (Some (PgDate (1995, 12, 15))) 0 0 0 ''Drama'']"
  by code_simp

lemma sample_mongo_search:
  "fst (search_mongo contains_ci (denormalise sample_rel) (Some ''dra'') None None None ''rating'' 2 None)
     = Inr [ResultRow (Some 3) (Some ''Metropolis'') (Some (MongoDate ''1927-01-10'')) 5 7 1 ''Drama'',
            ResultRow (Some 2) (Some ''Heat'') (Some (MongoDate ''1995-12-15'')) 0 0 0 ''Drama'']"
  by code_simp

theorem unrated_movie_kept_within_limit_witness:
  "map r_rating (ratings sample_rel) = [4, 8, 7]
   \<and> (\<exists>rows row. search_postgres plain_ilike sample_rel (Some ''dra'') None None None ''rating'' 2 None = Inr rows
         \<and> row \<in> set rows \<and> rr_movie_id row = Some 2
         \<and> rr_avg_rating row = 0 \<and> rr_num_ratings row = 0)
   \<and> (\<exists>rows row. fst (search_mongo contains_ci (denormalise sample_rel) (Some ''dra'') None None None ''rating'' 2 None) = Inr rows
         \<and> row \<in> set rows \<and> rr_movie_id row = Some 2
         \<and> rr_avg_rating row = 0 \<and> rr_num_ratings row = 0)
   \<and> 0 \<le> rr_avg_rating
         (ResultRow (Some 3) (Some ''Metropolis'') (Some (PgDate (1927, 1, 10))) 5 7 1 ''Drama'')
   \<and> 0 \<le> rr_avg_rating
         (ResultRow (Some 3) (Some ''Metropolis'') (Some (MongoDate ''1927-01-10'')) 5 7 1 ''Drama'')"
proof -
  note T = unrated_movie_kept_within_limit [where ilike = plain_ilike and regex = contains_ci
      and rdb = sample_rel and ddb = "denormalise sample_rel"
      and genre = "Some ''dra''" and actor = None and year_start = None and year_end = None
      and sort_by = "''rating''" and limit = 2 and title = None]
  let ?m = "Movie 2 ''Heat'' (Some (1995, 12, 15)) None"
  let ?d = "MovieDoc (Some 2) (Some ''Heat'') (Some ''Heat'') (Some ''1995-12-15'') None
          (Some (GenresList [GenreDoc (Some ''Drama'')]))"
  have h1: "\<forall>r \<in> set (ratings sample_rel). 0 \<le> r_rating r"
    by (simp add: sample_rel_def)
  have h2: "\<forall>r \<in> set (mongo_ratings_col (denormalise sample_rel)). \<forall>v. rd_rating r = Some v \<longrightarrow> 0 \<le> v"
    by (auto simp: denormalise_def sample_rel_def)
  have fm: "pg_filter_holds plain_ilike sample_rel (Some ''dra'') None None None None ?m"
    by code_simp
  have fd: "mongo_filter_holds contains_ci (denormalise sample_rel) (Some ''dra'') None None None None ?d"
    by code_simp
  have pm1: "?m \<in> set (movies sample_rel)" by (simp add: sample_rel_def)
  have pm2: "\<forall>r \<in> set (ratings sample_rel). r_movie_id r \<noteq> m_id ?m"
    by (simp add: sample_rel_def)
  have pm3: "length (filter (pg_filter_holds plain_ilike sample_rel (Some ''dra'') None None None None)
                  (movies sample_rel)) \<le> nat 2"
    unfolding sample_pg_filter by simp
  have pm: "?m \<in> set (movies sample_rel)
      \<and> pg_filter_holds plain_ilike sample_rel (Some ''dra'') None None None None ?m
      \<and> (\<forall>r \<in> set (ratings sample_rel). r_movie_id r \<noteq> m_id ?m)
      \<and> (0::int) \<le> 2
      \<and> length (filter (pg_filter_holds plain_ilike sample_rel (Some ''dra'') None None None None)
                  (movies sample_rel)) \<le> nat 2"
    using pm1 fm pm2 pm3 by simp
  have dm1: "?d \<in> set (mongo_movies_col (denormalise sample_rel))" by code_simp
  have dm2: "\<forall>r \<in> set (mongo_ratings_col (denormalise sample_rel)). Some (rd_movie_id r) \<noteq> d_id ?d"
    by (simp add: denormalise_def sample_rel_def)
  have dm3: "length (filter (mongo_filter_holds contains_ci (denormalise sample_rel) (Some ''dra'') None None None None)
                  (mongo_movies_col (denormalise sample_rel))) \<le> nat 2"
    unfolding sample_mongo_filter by simp
  have dm: "?d \<in> set (mongo_movies_col (denormalise sample_rel))
      \<and> mongo_filter_holds contains_ci (denormalise sample_rel) (Some ''dra'') None None None None ?d
      \<and> (\<forall>r \<in> set (mongo_ratings_col (denormalise sample_rel)). Some (rd_movie_id r) \<noteq> d_id ?d)
      \<and> (0::int) < 2
      \<and> length (filter (mongo_filter_holds contains_ci (denormalise sample_rel) (Some ''dra'') None None None None)
                  (mongo_movies_col (denormalise sample_rel))) \<le> nat 2"
    using dm1 fd dm2 dm3 by simp
  have a: "\<exists>rows row. search_postgres plain_ilike sample_rel (Some ''dra'') None None None ''rating'' 2 None = Inr rows
         \<and> row \<in> set rows \<and> rr_movie_id row = Some (m_id ?m)
         \<and> rr_avg_rating row = 0 \<and> rr_num_ratings row = 0"
    using T pm by blast
  have b: "\<exists>rows row. fst (search_mongo contains_ci (denormalise sample_rel) (Some ''dra'') None None None ''rating'' 2 None) = Inr rows
         \<and> row \<in> set rows \<and> rr_movie_id row = d_id ?d
         \<and> rr_avg_rating row = 0 \<and> rr_num_ratings row = 0"
    using T dm by blast
  have c: "map r_rating (ratings sample_rel) = [4, 8, 7]" by (simp add: sample_rel_def)
  have n1: "0 \<le> rr_avg_rating
         (ResultRow (Some 3) (Some ''Metropolis'') (Some (PgDate (1927, 1, 10))) 5 7 1 ''Drama'')"
  proof -
    have "\<forall>rows row. search_postgres plain_ilike sample_rel (Some ''dra'') None None None ''rating'' 2 None = Inr rows
         \<and> row \<in> set rows \<longrightarrow> 0 \<le> rr_avg_rating row \<and> 0 \<le> rr_num_ratings row"
      using T h1 by blast
    then show ?thesis unfolding sample_pg_search by simp
  qed
  have n2: "0 \<le> rr_avg_rating
         (ResultRow (Some 3) (Some ''Metropolis'') (Some (MongoDate ''1927-01-10'')) 5 7 1 ''Drama'')"
  proof -
    have "\<forall>rows row. fst (search_mongo contains_ci (denormalise sample_rel) (Some ''dra'') None None None ''rating'' 2 None) = Inr rows
         \<and> row \<in> set rows \<longrightarrow> 0 \<le> rr_avg_rating row \<and> 0 \<le> rr_num_ratings row"
      using T h2 by blast
    then show ?thesis unfolding sample_mongo_search by simp
  qed
  show ?thesis using a b c n1 n2 by simp
qed

text \<open>
  With the limit 1 and the order by rating, the unrated movie 2 passes the genre filter and
  is in neither output; and in a store holding the rating -1 both strategies report the
  average -1.
\<close>

theorem unrated_movie_dropped_counterexample:
  "pg_filter_holds plain_ilike sample_rel (Some ''dra'') None None None None
      (Movie 2 ''Heat'' (Some (1995, 12, 15)) None)
   \<and> mongo_filter_holds contains_ci (denormalise sample_rel) (Some ''dra'') None None None None
      (MovieDoc (Some 2) (Some ''Heat'') (Some ''Heat'') (Some ''1995-12-15'') None
          (Some (GenresList [GenreDoc (Some ''Drama'')])))
   \<and> map r_movie_id (ratings sample_rel) = [1, 1, 3]
   \<and> search_postgres plain_ilike sample_rel (Some ''dra'') None None None ''rating'' 1 None
       = Inr [ResultRow (Some 3) (Some ''Metropolis'') (Some (PgDate (1927, 1, 10))) 5 7 1 ''Drama'']
   \<and> fst (search_mongo contains_ci (denormalise sample_rel) (Some ''dra'') None None None ''rating'' 1 None)
       = Inr [ResultRow (Some 3) (Some ''Metropolis'') (Some (MongoDate ''1927-01-10'')) 5 7 1 ''Drama'']
   \<and> search_postgres plain_ilike sample_negative None None None None ''rating'' 10 None
       = Inr [ResultRow (Some 1) (Some ''Toy Story'') (Some (PgDate (1995, 10, 30))) 21 (- 1) 1 ''Animation'']
   \<and> fst (search_mongo contains_ci (denormalise sample_negative) None None None None ''rating'' 10 None)
       = Inr [ResultRow (Some 1) (Some ''Toy Story'') (Some (MongoDate ''1995-10-30'')) 21 (- 1) 1 ''Animation'']"
  by code_simp

subsection \<open>The two strategies on consistent stores\<close>

text \<open>
  The document strategy compares the release date as text with \<^verbatim>\<open>"{year}-01-01"\<close> and
  \<^verbatim>\<open>"{year}-12-31"\<close>. For years of four digits and dates \<^verbatim>\<open>YYYY-MM-DD\<close> this is the
  comparison of the years.
\<close>

declare str_of_nat.simps [simp del]




























lemma credit_matches_denormalise:
  "credit_matches regex (CastNameRegex a)
     (CreditDoc (Some (m_id m)) (Some (CastList (map (\<lambda>p. Some (person_name p)) (cast_of db m)))))
   = actor_holds regex db a m"
  by (simp add: actor_holds_def list_ex_iff)














end
